theory Spec2Isabelle
  imports Complex_Main "HOL-Library.AList" "HOL-Library.Sublist" "HOL-Library.Multiset"
begin

section \<open>ClarityWorks: the stores, the record parser and the AI adapter\<close>

text \<open>
  The repository is TypeScript that runs in a browser. Its types are erased at run time, so
  the model works on the values the code really handles: what \<^verbatim>\<open>JSON.parse\<close> returns is
  \<^verbatim>\<open>any\<close>, whatever the declared return type says. Conventions:
  \<^item> a JavaScript value is a \<open>js\<close>; an object literal \<^verbatim>\<open>{a: x, b: y}\<close> is
    \<open>JObj [(''a'', x), (''b'', y)]\<close>, its properties in insertion order; \<open>Native n\<close> is an
    object of the engine that JSON text cannot denote, by name: the function \<^verbatim>\<open>Object\<close>,
    the object \<^verbatim>\<open>Object.prototype\<close>, its methods;
  \<^item> a number is an exact rational or \<open>NaN\<close>; the rounding and the range of IEEE doubles
    are not modelled;
  \<^item> strings are lists of 8-bit characters; \<^verbatim>\<open>trim\<close> and \<^verbatim>\<open>toLowerCase\<close> are modelled on
    ASCII;
  \<^item> a \<^verbatim>\<open>throw\<close> (or a rejected promise) is the \<open>Inl\<close> of a sum, a \<^verbatim>\<open>try/catch\<close> a case
    distinction on it;
  \<^item> the clock, the random generator, \<^verbatim>\<open>Date\<close> parsing and the network are arguments of the
    functions that use them.
\<close>

subsection \<open>JavaScript values\<close>

datatype number = NaN | Num rat

datatype js =
    Undefined
  | JNull
  | JBool bool
  | JNum number
  | JStr string
  | JArr "js list"
  | JObj "(string \<times> js) list"
  | Native string

datatype error = TypeError | SyntaxError | Error string

text \<open>\<^verbatim>\<open>String(n)\<close> for a natural number \<open>n\<close>.\<close>

definition digit_char :: "nat \<Rightarrow> char" where
  "digit_char d = ''0123456789'' ! d"

fun decimal :: "nat \<Rightarrow> string" where
  "decimal n = (if n < 10 then [digit_char n] else decimal (n div 10) @ [digit_char (n mod 10)])"

declare decimal.simps [simp del]

text \<open>The decimal digits, and the number that a string of them denotes.\<close>

definition is_digit :: "char \<Rightarrow> bool" where
  "is_digit c = (c \<in> set ''0123456789'')"

definition digits_value :: "string \<Rightarrow> nat" where
  "digits_value s = foldl (\<lambda>a c. 10 * a + (of_char c - 48)) 0 s"

text \<open>\<^verbatim>\<open>!value\<close> is true of exactly these values.\<close>

fun falsy :: "js \<Rightarrow> bool" where
  "falsy Undefined = True"
| "falsy JNull = True"
| "falsy (JBool b) = (\<not> b)"
| "falsy (JNum n) = (n = NaN \<or> n = Num 0)"
| "falsy (JStr s) = (s = [])"
| "falsy (JArr xs) = False"
| "falsy (JObj ps) = False"
| "falsy (Native n) = False"

text \<open>
  What every object literal and every object made by \<^verbatim>\<open>JSON.parse\<close> inherits: the members
  of \<^verbatim>\<open>Object.prototype\<close>. All of them are functions, but \<^verbatim>\<open>__proto__\<close>, which reads as
  \<^verbatim>\<open>Object.prototype\<close> itself.
\<close>

definition Object_prototype :: "(string \<times> js) list" where
  "Object_prototype =
     [(''constructor'', Native ''Object''),
      (''__defineGetter__'', Native ''__defineGetter__''),
      (''__defineSetter__'', Native ''__defineSetter__''),
      (''hasOwnProperty'', Native ''hasOwnProperty''),
      (''__lookupGetter__'', Native ''__lookupGetter__''),
      (''__lookupSetter__'', Native ''__lookupSetter__''),
      (''isPrototypeOf'', Native ''isPrototypeOf''),
      (''propertyIsEnumerable'', Native ''propertyIsEnumerable''),
      (''toString'', Native ''toString''),
      (''valueOf'', Native ''valueOf''),
      (''__proto__'', Native ''Object.prototype''),
      (''toLocaleString'', Native ''toLocaleString'')]"

text \<open>\<^verbatim>\<open>o[k]\<close> on an object with own properties \<open>ps\<close>: the own property, else the
  inherited one, else \<^verbatim>\<open>undefined\<close>.\<close>

definition member :: "(string \<times> js) list \<Rightarrow> string \<Rightarrow> js" where
  "member ps k =
     (case map_of ps k of
        Some v \<Rightarrow> v
      | None \<Rightarrow> (case map_of Object_prototype k of Some v \<Rightarrow> v | None \<Rightarrow> Undefined))"

text \<open>
  \<^verbatim>\<open>v.k\<close>: reading a property of \<^verbatim>\<open>null\<close> or \<^verbatim>\<open>undefined\<close> throws a TypeError. On a
  primitive, an array or a function the equation holds for the names the code reads
  (\<^verbatim>\<open>id\<close>, \<^verbatim>\<open>clientId\<close>, \<^verbatim>\<open>date\<close>, \<^verbatim>\<open>auditLog\<close>, ...), which their prototypes do not
  define.
\<close>

fun get :: "js \<Rightarrow> string \<Rightarrow> error + js" where
  "get Undefined k = Inl TypeError"
| "get JNull k = Inl TypeError"
| "get (JObj ps) k = Inr (member ps k)"
| "get v k = Inr Undefined"

text \<open>\<^verbatim>\<open>v.k\<close> where \<open>v\<close> is known not to be \<^verbatim>\<open>null\<close> or \<^verbatim>\<open>undefined\<close>.\<close>

definition read :: "js \<Rightarrow> string \<Rightarrow> js" where
  "read v k = (case get v k of Inl e \<Rightarrow> Undefined | Inr x \<Rightarrow> x)"

text \<open>\<^verbatim>\<open>{...o, ...u}\<close> on the property lists of two objects: a key of \<open>u\<close> that \<open>o\<close> has keeps
  its place and takes the new value, a new key goes to the end.\<close>

definition object_spread :: "(string \<times> js) list \<Rightarrow> (string \<times> js) list \<Rightarrow> (string \<times> js) list" where
  "object_spread ps us = foldl (\<lambda>acc (k, v). AList.update k v acc) ps us"

text \<open>The own enumerable properties that \<^verbatim>\<open>{...v}\<close> copies: those of an object, the
  indices of an array or a string, none of another primitive.\<close>

fun own_props :: "js \<Rightarrow> (string \<times> js) list" where
  "own_props (JObj ps) = ps"
| "own_props (JArr xs) = zip (map decimal [0..<length xs]) xs"
| "own_props (JStr s) = zip (map decimal [0..<length s]) (map (\<lambda>c. JStr [c]) s)"
| "own_props v = []"

text \<open>\<^verbatim>\<open>[...v]\<close>: an array gives its elements, a string its characters, no other value
  of the model is iterable.\<close>

fun array_spread :: "js \<Rightarrow> error + js list" where
  "array_spread (JArr xs) = Inr xs"
| "array_spread (JStr s) = Inr (map (\<lambda>c. JStr [c]) s)"
| "array_spread v = Inl TypeError"

text \<open>\<^verbatim>\<open>Array.prototype.filter\<close> and \<^verbatim>\<open>findIndex\<close> with a callback that may throw: the
  exception leaves the loop at the element that raised it.\<close>

fun filter_js :: "('a \<Rightarrow> error + bool) \<Rightarrow> 'a list \<Rightarrow> error + 'a list" where
  "filter_js p [] = Inr []"
| "filter_js p (x # xs) =
     (case p x of
        Inl e \<Rightarrow> Inl e
      | Inr b \<Rightarrow> (case filter_js p xs of
                   Inl e \<Rightarrow> Inl e
                 | Inr ys \<Rightarrow> Inr (if b then x # ys else ys)))"

fun findIndex :: "('a \<Rightarrow> error + bool) \<Rightarrow> 'a list \<Rightarrow> error + nat option" where
  "findIndex p [] = Inr None"
| "findIndex p (x # xs) =
     (case p x of
        Inl e \<Rightarrow> Inl e
      | Inr True \<Rightarrow> Inr (Some 0)
      | Inr False \<Rightarrow> (case findIndex p xs of
                       Inl e \<Rightarrow> Inl e
                     | Inr None \<Rightarrow> Inr None
                     | Inr (Some i) \<Rightarrow> Inr (Some (Suc i))))"

text \<open>\<^verbatim>\<open>c.id === id\<close> and \<^verbatim>\<open>c.id !== id\<close> against a string \<open>i\<close>.\<close>

definition prop_is :: "string \<Rightarrow> string \<Rightarrow> js \<Rightarrow> error + bool" where
  "prop_is k i c = (case get c k of Inl e \<Rightarrow> Inl e | Inr v \<Rightarrow> Inr (v = JStr i))"

definition prop_is_not :: "string \<Rightarrow> string \<Rightarrow> js \<Rightarrow> error + bool" where
  "prop_is_not k i c = (case get c k of Inl e \<Rightarrow> Inl e | Inr v \<Rightarrow> Inr (v \<noteq> JStr i))"

subsection \<open>Persistent storage\<close>

text \<open>
  \<^verbatim>\<open>localStorage\<close> maps a key to a string or to nothing. The stores use a stored string in one
  way only, \<^verbatim>\<open>data ? JSON.parse(data) : []\<close>, so a string is modelled by what that expression
  makes of it: it is empty, or \<^verbatim>\<open>JSON.parse\<close> throws on it, or it is JSON text for a value.
  \<^verbatim>\<open>JSON.stringify\<close> writes the text of the value it is given, after the changes it makes
  on the way: \<^verbatim>\<open>NaN\<close> becomes \<^verbatim>\<open>null\<close>; \<^verbatim>\<open>undefined\<close> or a function becomes
  \<^verbatim>\<open>null\<close> as an array element and is left out as the value of a property;
  \<^verbatim>\<open>Object.prototype\<close>, which has no enumerable property, becomes \<^verbatim>\<open>{}\<close>. A failing
  \<^verbatim>\<open>setItem\<close> (quota) is not modelled.
\<close>

datatype stored = Empty | Unparseable | Json js

fun left_out :: "js \<Rightarrow> bool" where
  "left_out Undefined = True"
| "left_out (Native n) = (n \<noteq> ''Object.prototype'')"
| "left_out v = False"

fun jsonify :: "js \<Rightarrow> js" where
  "jsonify Undefined = JNull"
| "jsonify (Native n) = (if n = ''Object.prototype'' then JObj [] else JNull)"
| "jsonify (JNum n) = (if n = NaN then JNull else JNum n)"
| "jsonify (JArr xs) = JArr (map jsonify xs)"
| "jsonify (JObj ps) =
     JObj (map (\<lambda>p. (fst p, jsonify (snd p))) (filter (\<lambda>p. \<not> left_out (snd p)) ps))"
| "jsonify v = v"

definition JSON_stringify :: "js \<Rightarrow> stored" where
  "JSON_stringify v = Json (jsonify v)"

fun JSON_parse :: "stored \<Rightarrow> error + js" where
  "JSON_parse (Json v) = Inr v"
| "JSON_parse t = Inl SyntaxError"

type_synonym storage = "string \<Rightarrow> stored option"

subsection \<open>The built-in clients (mockClients.ts)\<close>

definition mockClients :: "js list" where
  "mockClients =
    [JObj [(''id'', JStr ''client-001''),
           (''name'', JStr ''Margaret Chen''),
           (''aum'', JNum (Num 2450000)),
           (''riskProfile'', JStr ''Moderate''),
           (''advisor'', JStr ''Sarah Mitchell''),
           (''lastContact'', JStr ''2024-11-15''),
           (''goals'', JArr
             [JObj [(''id'', JStr ''goal-001''), (''name'', JStr ''Retirement at 62''),
                    (''targetAmount'', JNum (Num 3000000)), (''currentAmount'', JNum (Num 2100000)),
                    (''targetDate'', JStr ''2029-06-01'')],
              JObj [(''id'', JStr ''goal-002''), (''name'', JStr ''College Fund (Emma)''),
                    (''targetAmount'', JNum (Num 250000)), (''currentAmount'', JNum (Num 180000)),
                    (''targetDate'', JStr ''2027-09-01'')],
              JObj [(''id'', JStr ''goal-003''), (''name'', JStr ''Vacation Home Down Payment''),
                    (''targetAmount'', JNum (Num 150000)), (''currentAmount'', JNum (Num 95000)),
                    (''targetDate'', JStr ''2026-03-01'')]]),
           (''accounts'', JArr
             [JObj [(''id'', JStr ''acc-001''), (''name'', JStr ''Traditional IRA''),
                    (''type'', JStr ''IRA''), (''balance'', JNum (Num 890000))],
              JObj [(''id'', JStr ''acc-002''), (''name'', JStr ''Joint Brokerage''),
                    (''type'', JStr ''Brokerage''), (''balance'', JNum (Num 1250000))],
              JObj [(''id'', JStr ''acc-003''), (''name'', JStr ''Roth IRA''),
                    (''type'', JStr ''Roth IRA''), (''balance'', JNum (Num 310000))]])],
     JObj [(''id'', JStr ''client-002''),
           (''name'', JStr ''Robert & Diana Hartwell''),
           (''aum'', JNum (Num 4875000)),
           (''riskProfile'', JStr ''Moderate-Aggressive''),
           (''advisor'', JStr ''Sarah Mitchell''),
           (''lastContact'', JStr ''2024-11-28''),
           (''goals'', JArr
             [JObj [(''id'', JStr ''goal-004''), (''name'', JStr ''Legacy Planning''),
                    (''targetAmount'', JNum (Num 5000000)), (''currentAmount'', JNum (Num 4200000)),
                    (''targetDate'', JStr ''2035-01-01'')],
              JObj [(''id'', JStr ''goal-005''), (''name'', JStr ''Charitable Foundation''),
                    (''targetAmount'', JNum (Num 1000000)), (''currentAmount'', JNum (Num 650000)),
                    (''targetDate'', JStr ''2028-12-01'')]]),
           (''accounts'', JArr
             [JObj [(''id'', JStr ''acc-004''), (''name'', JStr ''Hartwell Family Trust''),
                    (''type'', JStr ''Trust''), (''balance'', JNum (Num 2800000))],
              JObj [(''id'', JStr ''acc-005''), (''name'', JStr ''Robert 401(k)''),
                    (''type'', JStr ''401k''), (''balance'', JNum (Num 1450000))],
              JObj [(''id'', JStr ''acc-006''), (''name'', JStr ''Joint Investment Account''),
                    (''type'', JStr ''Brokerage''), (''balance'', JNum (Num 625000))]])]]"

subsection \<open>The Client Store (clientStorageService.ts)\<close>

text \<open>
  The state the store's functions can reach: the module-level array of built-in clients and
  the browser's storage. The built-in array is a component of the state so that "no
  operation changes it" is a statement about the operations and not about a constant.
\<close>

record world =
  builtin :: "js list"
  localStorage :: storage

definition CLIENTS_KEY :: string where
  "CLIENTS_KEY = ''clarityworks_clients''"

definition getCustomClients :: "world \<Rightarrow> js" where
  "getCustomClients w =
     (case localStorage w CLIENTS_KEY of
        None \<Rightarrow> JArr []
      | Some data \<Rightarrow>
          if data = Empty then JArr []
          else (case JSON_parse data of Inl e \<Rightarrow> JArr [] | Inr v \<Rightarrow> v))"

definition getAllClients :: "world \<Rightarrow> error + js list" where
  "getAllClients w =
     (case array_spread (getCustomClients w) of
        Inl e \<Rightarrow> Inl e
      | Inr customClients \<Rightarrow> Inr (builtin w @ customClients))"

text \<open>\<^verbatim>\<open>`client-custom-${Date.now()}-${Math.random().toString(36).substr(2, 9)}`\<close>, with
  the clock reading \<open>now\<close> and the random suffix \<open>rnd\<close>.\<close>

definition custom_id :: "nat \<Rightarrow> string \<Rightarrow> string" where
  "custom_id now rnd = ''client-custom-'' @ decimal now @ ''-'' @ rnd"

text \<open>\<^verbatim>\<open>addClient(client)\<close>: \<open>client\<close> is the property list of the object passed in.
  \<^verbatim>\<open>push\<close> exists on arrays only; the exception leaves before \<^verbatim>\<open>setItem\<close>.\<close>

definition addClient :: "nat \<Rightarrow> string \<Rightarrow> (string \<times> js) list \<Rightarrow> world \<Rightarrow> (error + js) \<times> world" where
  "addClient now rnd client w =
     (let newClient = JObj (object_spread client [(''id'', JStr (custom_id now rnd))])
      in case getCustomClients w of
           JArr customClients \<Rightarrow>
             (Inr newClient,
              w\<lparr>localStorage := (localStorage w)
                   (CLIENTS_KEY \<mapsto> JSON_stringify (JArr (customClients @ [newClient])))\<rparr>)
         | _ \<Rightarrow> (Inl TypeError, w))"

text \<open>\<^verbatim>\<open>updateClient(id, updates)\<close> returns the updated record, \<^verbatim>\<open>null\<close> when no stored
  record has the id; \<open>index\<close> is within the array when \<^verbatim>\<open>findIndex\<close> returns it.\<close>

definition updateClient :: "string \<Rightarrow> (string \<times> js) list \<Rightarrow> world \<Rightarrow> (error + js) \<times> world" where
  "updateClient i updates w =
     (case getCustomClients w of
        JArr customClients \<Rightarrow>
          (case findIndex (prop_is ''id'' i) customClients of
             Inl e \<Rightarrow> (Inl e, w)
           | Inr None \<Rightarrow> (Inr JNull, w)
           | Inr (Some index) \<Rightarrow>
               (let updated = JObj (object_spread (own_props (customClients ! index)) updates);
                    customClients' = customClients[index := updated]
                in (Inr updated,
                    w\<lparr>localStorage := (localStorage w)
                         (CLIENTS_KEY \<mapsto> JSON_stringify (JArr customClients'))\<rparr>)))
      | _ \<Rightarrow> (Inl TypeError, w))"

definition deleteClient :: "string \<Rightarrow> world \<Rightarrow> (error + bool) \<times> world" where
  "deleteClient i w =
     (case getCustomClients w of
        JArr customClients \<Rightarrow>
          (case filter_js (prop_is_not ''id'' i) customClients of
             Inl e \<Rightarrow> (Inl e, w)
           | Inr filtered \<Rightarrow>
               if length filtered = length customClients then (Inr False, w)
               else (Inr True,
                     w\<lparr>localStorage := (localStorage w)
                          (CLIENTS_KEY \<mapsto> JSON_stringify (JArr filtered))\<rparr>))
      | _ \<Rightarrow> (Inl TypeError, w))"

definition isCustomClient :: "string \<Rightarrow> bool" where
  "isCustomClient i = prefix ''client-custom-'' i"

text \<open>A call of the store, and what it gives back.\<close>

datatype call =
    ListAll
  | Create nat string "(string \<times> js) list"
  | Update string "(string \<times> js) list"
  | Remove string
  | IsCustom string

datatype outcome =
    Listed "js list"
  | Created js
  | Updated js
  | Removed bool
  | Custom bool
  | Thrown error

fun step :: "call \<Rightarrow> world \<Rightarrow> outcome \<times> world" where
  "step ListAll w = (case getAllClients w of Inl e \<Rightarrow> Thrown e | Inr cs \<Rightarrow> Listed cs, w)"
| "step (Create now rnd client) w =
     (case addClient now rnd client w of
        (Inl e, w') \<Rightarrow> (Thrown e, w')
      | (Inr c, w') \<Rightarrow> (Created c, w'))"
| "step (Update i updates) w =
     (case updateClient i updates w of
        (Inl e, w') \<Rightarrow> (Thrown e, w')
      | (Inr c, w') \<Rightarrow> (Updated c, w'))"
| "step (Remove i) w =
     (case deleteClient i w of
        (Inl e, w') \<Rightarrow> (Thrown e, w')
      | (Inr b, w') \<Rightarrow> (Removed b, w'))"
| "step (IsCustom i) w = (Custom (isCustomClient i), w)"

fun run :: "call list \<Rightarrow> world \<Rightarrow> outcome list \<times> world" where
  "run [] w = ([], w)"
| "run (c # cs) w =
     (case step c w of (out, w') \<Rightarrow> (case run cs w' of (outs, w'') \<Rightarrow> (out # outs, w'')))"

text \<open>The browser with nothing stored.\<close>

definition fresh_world :: world where
  "fresh_world = \<lparr>builtin = mockClients, localStorage = Map.empty\<rparr>"

subsection \<open>The Interaction Store (storageService.ts)\<close>

definition INTERACTIONS_KEY :: string where
  "INTERACTIONS_KEY = ''clarityworks_interactions''"

definition getAllInteractions :: "world \<Rightarrow> js" where
  "getAllInteractions w =
     (case localStorage w INTERACTIONS_KEY of
        None \<Rightarrow> JArr []
      | Some data \<Rightarrow>
          if data = Empty then JArr []
          else (case JSON_parse data of Inl e \<Rightarrow> JArr [] | Inr v \<Rightarrow> v))"

text \<open>
  \<^verbatim>\<open>new Date(v).getTime()\<close> is an argument, \<open>getTime\<close>: the time value in milliseconds,
  \<open>None\<close> for \<^verbatim>\<open>NaN\<close> (an invalid date). The comparator
  \<^verbatim>\<open>(a, b) => new Date(b.date).getTime() - new Date(a.date).getTime()\<close> is \<^verbatim>\<open>NaN\<close> as
  soon as one of the two is. It is applied to elements that passed the filter only, which
  are objects, so the property reads do not throw.
\<close>

definition date_of :: "js \<Rightarrow> js" where
  "date_of a = (case get a ''date'' of Inl e \<Rightarrow> Undefined | Inr d \<Rightarrow> d)"

definition by_date_desc :: "(js \<Rightarrow> int option) \<Rightarrow> js \<Rightarrow> js \<Rightarrow> int option" where
  "by_date_desc getTime a b =
     (case (getTime (date_of b), getTime (date_of a)) of
        (Some tb, Some ta) \<Rightarrow> Some (tb - ta)
      | _ \<Rightarrow> None)"

text \<open>
  \<^verbatim>\<open>Array.prototype.sort(cmp)\<close> is stable, and reads a \<^verbatim>\<open>NaN\<close> from the comparator as 0.
  For a consistent comparator its result is the one that stable insertion computes; for an
  inconsistent one (valid and invalid dates mixed) the language leaves the order to the
  engine, and insertion is then one of the orders an engine may produce.
\<close>

fun insert_sorted :: "('a \<Rightarrow> 'a \<Rightarrow> int option) \<Rightarrow> 'a \<Rightarrow> 'a list \<Rightarrow> 'a list" where
  "insert_sorted cmp x [] = [x]"
| "insert_sorted cmp x (y # ys) =
     (if (case cmp x y of None \<Rightarrow> True | Some d \<Rightarrow> d \<le> 0) then x # y # ys
      else y # insert_sorted cmp x ys)"

definition sort_js :: "('a \<Rightarrow> 'a \<Rightarrow> int option) \<Rightarrow> 'a list \<Rightarrow> 'a list" where
  "sort_js cmp xs = foldr (insert_sorted cmp) xs []"

definition getClientInteractions :: "(js \<Rightarrow> int option) \<Rightarrow> string \<Rightarrow> world \<Rightarrow> error + js list" where
  "getClientInteractions getTime clientId w =
     (case getAllInteractions w of
        JArr all \<Rightarrow>
          (case filter_js (prop_is ''clientId'' clientId) all of
             Inl e \<Rightarrow> Inl e
           | Inr mine \<Rightarrow> Inr (sort_js (by_date_desc getTime) mine))
      | _ \<Rightarrow> Inl TypeError)"

text \<open>\<^verbatim>\<open>addInteraction(interaction)\<close>, with the clock reading \<open>now\<close>, the random suffix
  \<open>rnd\<close> and \<open>created\<close> for \<^verbatim>\<open>new Date().toISOString()\<close>.\<close>

definition interaction_id :: "nat \<Rightarrow> string \<Rightarrow> string" where
  "interaction_id now rnd = ''interaction-'' @ decimal now @ ''-'' @ rnd"

definition addInteraction ::
  "nat \<Rightarrow> string \<Rightarrow> string \<Rightarrow> (string \<times> js) list \<Rightarrow> world \<Rightarrow> (error + js) \<times> world" where
  "addInteraction now rnd created interaction w =
     (let newInteraction =
            JObj (object_spread interaction
                    [(''id'', JStr (interaction_id now rnd)), (''createdAt'', JStr created)])
      in case getAllInteractions w of
           JArr all \<Rightarrow>
             (Inr newInteraction,
              w\<lparr>localStorage := (localStorage w)
                   (INTERACTIONS_KEY \<mapsto> JSON_stringify (JArr (all @ [newInteraction])))\<rparr>)
         | _ \<Rightarrow> (Inl TypeError, w))"

text \<open>The two sample lists of \<^verbatim>\<open>initializeSampleInteractions\<close>.\<close>

definition samples_001 :: "(string \<times> js) list list" where
  \<open>samples_001 =
    [[(''clientId'', JStr ''client-001''),
      (''date'', JStr ''2024-11-15''),
      (''type'', JStr ''meeting''),
      (''title'', JStr ''Quarterly Portfolio Review''),
      (''notes'', JStr ''Met with Margaret to review Q3 performance. She expressed concerns about market volatility affecting her retirement timeline. Discussed her daughter Emma's college plans - now looking at Georgetown. Margaret mentioned possibly retiring at 60 instead of 62 since James is already semi-retired.''),
      (''actionItems'', JArr [JStr ''Run retirement projection for age 60'',
         JStr ''Research Georgetown tuition costs'', JStr ''Review risk allocation''])],
     [(''clientId'', JStr ''client-001''),
      (''date'', JStr ''2024-10-20''),
      (''type'', JStr ''call''),
      (''title'', JStr ''Market Volatility Check-in''),
      (''notes'', JStr ''Quick call after October market swings. Margaret was nervous about the drops. Reassured her about long-term strategy. She asked about moving some funds to more conservative positions. Agreed to discuss at next meeting.''),
      (''actionItems'', JArr [JStr ''Prepare conservative rebalancing options''])],
     [(''clientId'', JStr ''client-001''),
      (''date'', JStr ''2024-09-05''),
      (''type'', JStr ''meeting''),
      (''title'', JStr ''Annual Planning Session''),
      (''notes'', JStr ''Annual review with Margaret and James. Goals remain: retirement at 62, college fund for Emma, vacation home. Vacation home timeline pushed back due to interest rates. All accounts performing well. Discussed tax-loss harvesting opportunities.''),
      (''actionItems'', JArr [JStr ''Update financial plan document'',
         JStr ''Schedule tax planning call with accountant''])]]\<close>

definition samples_002 :: "(string \<times> js) list list" where
  \<open>samples_002 =
    [[(''clientId'', JStr ''client-002''),
      (''date'', JStr ''2024-11-28''),
      (''type'', JStr ''meeting''),
      (''title'', JStr ''Year-End Planning Session''),
      (''notes'', JStr ''Met with Robert and Diana via video call from Scottsdale. Discussed charitable giving strategy - they want to accelerate DAF contributions and bunch donations. Robert turns 73 next year, need to plan for RMDs. They're considering selling the Boston property. Also want to set up 529 plans for all four grandchildren.''),
      (''actionItems'', JArr [JStr ''Model Roth conversion scenarios'',
         JStr ''Prepare DAF strategy memo'', JStr ''Initiate 529 setup'',
         JStr ''Analyze Boston property sale tax impact''])],
     [(''clientId'', JStr ''client-002''),
      (''date'', JStr ''2024-10-15''),
      (''type'', JStr ''call''),
      (''title'', JStr ''Trust Document Update''),
      (''notes'', JStr ''Diana called about updating trust beneficiaries. Want to add provisions for grandchildren. Referred to estate attorney for document updates. Also asked about increasing charitable foundation contributions.''),
      (''actionItems'', JArr [JStr ''Connect with estate attorney'',
         JStr ''Review foundation contribution limits''])],
     [(''clientId'', JStr ''client-002''),
      (''date'', JStr ''2024-08-22''),
      (''type'', JStr ''meeting''),
      (''title'', JStr ''Mid-Year Review''),
      (''notes'', JStr ''Strong first half performance. Tech allocation doing well. Robert happy with returns. Discussed legacy planning goals - on track. Diana mentioned grandchildren more frequently, hinting at future education planning.''),
      (''actionItems'', JArr [JStr ''Research 529 options for next meeting''])]]\<close>

text \<open>\<^verbatim>\<open>sampleInteractions.forEach(interaction => addInteraction(interaction))\<close>; the
  \<open>n\<close>-th call of \<^verbatim>\<open>addInteraction\<close> reads the clock and the random generator as
  \<open>stamps n\<close>.\<close>

fun add_each ::
  "(nat \<Rightarrow> nat \<times> string \<times> string) \<Rightarrow> nat \<Rightarrow> (string \<times> js) list list \<Rightarrow> world \<Rightarrow> (error + unit) \<times> world" where
  "add_each stamps n [] w = (Inr (), w)"
| "add_each stamps n (x # xs) w =
     (case stamps n of
        (now, rnd, created) \<Rightarrow>
          (case addInteraction now rnd created x w of
             (Inl e, w') \<Rightarrow> (Inl e, w')
           | (Inr i, w') \<Rightarrow> add_each stamps (Suc n) xs w'))"

definition initializeSampleInteractions ::
  "(js \<Rightarrow> int option) \<Rightarrow> (nat \<Rightarrow> nat \<times> string \<times> string) \<Rightarrow> string \<Rightarrow> world \<Rightarrow> (error + unit) \<times> world" where
  "initializeSampleInteractions getTime stamps clientId w =
     (case getClientInteractions getTime clientId w of
        Inl e \<Rightarrow> (Inl e, w)
      | Inr existing \<Rightarrow>
          if length existing > 0 then (Inr (), w)
          else add_each stamps 0
                 (if clientId = ''client-001'' then samples_001 else samples_002) w)"


text \<open>The stored records all carry an id with the custom prefix, as the records that
  \<^verbatim>\<open>addClient\<close> writes do.\<close>

definition custom_ids_only :: "js list \<Rightarrow> bool" where
  "custom_ids_only cs =
     list_all (\<lambda>c. case get c ''id'' of Inr (JStr j) \<Rightarrow> isCustomClient j | _ \<Rightarrow> False) cs"

fun is_update :: "call \<Rightarrow> bool" where
  "is_update (Update i updates) = True"
| "is_update c = False"

text \<open>
  What the claims about the Interaction Store speak of. A stored interaction is an object
  with a string \<^verbatim>\<open>clientId\<close> and a string \<^verbatim>\<open>date\<close>; its date is readable when
  \<^verbatim>\<open>Date\<close> gives it a time value; \<open>for_client\<close> is the test of the filter,
  \<^verbatim>\<open>i.clientId === clientId\<close>; \<open>time_of\<close> is the time value of the event date.
\<close>

definition stored_interaction :: "js \<Rightarrow> bool" where
  "stored_interaction x =
     (case x of
        JObj ps \<Rightarrow>
          (case (map_of ps ''clientId'', map_of ps ''date'') of
             (Some (JStr c), Some (JStr d)) \<Rightarrow> True
           | _ \<Rightarrow> False)
      | _ \<Rightarrow> False)"

definition readable :: "(js \<Rightarrow> int option) \<Rightarrow> js \<Rightarrow> bool" where
  "readable getTime x = (getTime (date_of x) \<noteq> None)"

definition for_client :: "string \<Rightarrow> js \<Rightarrow> bool" where
  "for_client clientId x = (get x ''clientId'' = Inr (JStr clientId))"

definition time_of :: "(js \<Rightarrow> int option) \<Rightarrow> js \<Rightarrow> int" where
  "time_of getTime x = (case getTime (date_of x) of None \<Rightarrow> 0 | Some t \<Rightarrow> t)"

subsection \<open>A Date for calendar days\<close>

text \<open>
  An instance of the argument \<open>getTime\<close>, for the examples: the time value of a string
  \<^verbatim>\<open>YYYY-MM-DD\<close> that names a day of the calendar, which is what the application writes
  (\<^verbatim>\<open>toISOString().split('T')[0]\<close>) and what \<^verbatim>\<open>Date\<close> reads as midnight UTC of that day.
  Every other value is given no time here.
\<close>

definition days_from_civil :: "int \<Rightarrow> int \<Rightarrow> int \<Rightarrow> int" where
  "days_from_civil y m d =
     (let y' = (if m \<le> 2 then y - 1 else y);
          era = y' div 400;
          yoe = y' - era * 400;
          doy = (153 * (if m > 2 then m - 3 else m + 9) + 2) div 5 + d - 1;
          doe = yoe * 365 + yoe div 4 - yoe div 100 + doy
      in era * 146097 + doe - 719468)"

definition days_in_month :: "int \<Rightarrow> int \<Rightarrow> int" where
  "days_in_month y m =
     (if m = 2 then (if y mod 4 = 0 \<and> (y mod 100 \<noteq> 0 \<or> y mod 400 = 0) then 29 else 28)
      else if m = 4 \<or> m = 6 \<or> m = 9 \<or> m = 11 then 30 else 31)"

definition getTime_ymd :: "js \<Rightarrow> int option" where
  "getTime_ymd v =
     (case v of
        JStr s \<Rightarrow>
          if length s = 10 \<and> s ! 4 = CHR ''-'' \<and> s ! 7 = CHR ''-'' \<and>
             list_all is_digit (take 4 s) \<and> list_all is_digit (take 2 (drop 5 s)) \<and>
             list_all is_digit (drop 8 s)
          then
            (let y = int (digits_value (take 4 s));
                 m = int (digits_value (take 2 (drop 5 s)));
                 d = int (digits_value (drop 8 s))
             in if 1 \<le> m \<and> m \<le> 12 \<and> 1 \<le> d \<and> d \<le> days_in_month y m
                then Some (days_from_civil y m d * 86400000) else None)
          else None
      | _ \<Rightarrow> None)"

subsection \<open>The free-text record parser (App.tsx, handleAddClient)\<close>

text \<open>String operations of the platform, on ASCII: \<^verbatim>\<open>trim\<close>, \<^verbatim>\<open>split\<close> on a character,
  \<^verbatim>\<open>toLowerCase\<close>, and \<^verbatim>\<open>replace(/[^0-9.]/g, '')\<close>.\<close>

definition is_space :: "char \<Rightarrow> bool" where
  "is_space c = (c \<in> set [CHR 0x09, CHR 0x0A, CHR 0x0B, CHR 0x0C, CHR 0x0D, CHR '' ''])"

definition trim :: "string \<Rightarrow> string" where
  "trim s = rev (dropWhile is_space (rev (dropWhile is_space s)))"

fun split :: "char \<Rightarrow> string \<Rightarrow> string list" where
  "split sep [] = [[]]"
| "split sep (c # cs) =
     (if c = sep then [] # split sep cs
      else (case split sep cs of p # ps \<Rightarrow> (c # p) # ps | [] \<Rightarrow> [[c]]))"

definition lower_char :: "char \<Rightarrow> char" where
  "lower_char c =
     (case map_of (zip ''ABCDEFGHIJKLMNOPQRSTUVWXYZ'' ''abcdefghijklmnopqrstuvwxyz'') c of
        None \<Rightarrow> c
      | Some l \<Rightarrow> l)"

definition toLowerCase :: "string \<Rightarrow> string" where
  "toLowerCase s = map lower_char s"

definition strip_non_numeric :: "string \<Rightarrow> string" where
  "strip_non_numeric s = filter (\<lambda>c. is_digit c \<or> c = CHR ''.'') s"

text \<open>
  \<^verbatim>\<open>parseFloat\<close> on a string of digits and points, which is all that the \<^verbatim>\<open>replace\<close>
  leaves: the longest prefix that is a decimal literal (digits, then optionally a point
  and digits; or a point and at least one digit) gives the number, and there is no number,
  \<^verbatim>\<open>NaN\<close>, when no prefix is one.
\<close>

definition parseFloat :: "string \<Rightarrow> number" where
  "parseFloat s =
     (let whole = takeWhile is_digit s;
          rest = dropWhile is_digit s;
          frac = (case rest of [] \<Rightarrow> [] | c # r \<Rightarrow> if c = CHR ''.'' then takeWhile is_digit r else [])
      in if whole = [] \<and> frac = [] then NaN
         else Num (of_nat (digits_value whole) + of_nat (digits_value frac) / 10 ^ length frac))"

text \<open>\<^verbatim>\<open>parts[i]\<close>, with \<open>None\<close> for \<^verbatim>\<open>undefined\<close>; \<^verbatim>\<open>parts[i] || dflt\<close>; and
  \<^verbatim>\<open>parseFloat(parts[i]?.replace(/[^0-9.]/g, '') || '0')\<close>.\<close>

definition field :: "string list \<Rightarrow> nat \<Rightarrow> string option" where
  "field parts i = (if i < length parts then Some (parts ! i) else None)"

definition or_default :: "string option \<Rightarrow> string \<Rightarrow> string" where
  "or_default p dflt = (case p of None \<Rightarrow> dflt | Some s \<Rightarrow> if s = [] then dflt else s)"

definition amount :: "string option \<Rightarrow> number" where
  "amount p =
     parseFloat (or_default (case p of None \<Rightarrow> None | Some s \<Rightarrow> Some (strip_non_numeric s)) ''0'')"

text \<open>\<^verbatim>\<open>createGoal\<close> and \<^verbatim>\<open>createAccount\<close> (clientStorageService.ts) store their arguments
  as they come, under a new id.\<close>

definition goal_id :: "nat \<Rightarrow> string \<Rightarrow> string" where
  "goal_id now rnd = ''goal-'' @ decimal now @ ''-'' @ rnd"

definition createGoal :: "nat \<Rightarrow> string \<Rightarrow> js \<Rightarrow> js \<Rightarrow> js \<Rightarrow> js \<Rightarrow> js" where
  "createGoal now rnd name targetAmount currentAmount targetDate =
     JObj [(''id'', JStr (goal_id now rnd)),
           (''name'', name),
           (''targetAmount'', targetAmount),
           (''currentAmount'', currentAmount),
           (''targetDate'', targetDate)]"

definition account_id :: "nat \<Rightarrow> string \<Rightarrow> string" where
  "account_id now rnd = ''acc-'' @ decimal now @ ''-'' @ rnd"

definition createAccount :: "nat \<Rightarrow> string \<Rightarrow> js \<Rightarrow> js \<Rightarrow> js \<Rightarrow> js" where
  "createAccount now rnd name type balance =
     JObj [(''id'', JStr (account_id now rnd)),
           (''name'', name),
           (''type'', type),
           (''balance'', balance)]"

text \<open>
  One line of the simple format. A stamp \<open>(now, rnd, today)\<close> holds what the making of one
  record reads of the clock and the random generator: \<^verbatim>\<open>Date.now()\<close>, the random suffix,
  and \<^verbatim>\<open>new Date().toISOString().split('T')[0]\<close>.
\<close>

definition goal_of_line :: "nat \<times> string \<times> string \<Rightarrow> string \<Rightarrow> js" where
  "goal_of_line stamp line =
     (case stamp of
        (now, rnd, today) \<Rightarrow>
          (let parts = map trim (split CHR ''|'' line)
           in createGoal now rnd
                (JStr (or_default (field parts 0) ''Goal''))
                (JNum (amount (field parts 1)))
                (JNum (amount (field parts 2)))
                (JStr (or_default (field parts 3) today))))"

definition typeMap :: "(string \<times> js) list" where
  "typeMap =
     [(''ira'', JStr ''IRA''),
      (''traditional ira'', JStr ''IRA''),
      (''roth'', JStr ''Roth IRA''),
      (''roth ira'', JStr ''Roth IRA''),
      (''401k'', JStr ''401k''),
      (''401(k)'', JStr ''401k''),
      (''brokerage'', JStr ''Brokerage''),
      (''trust'', JStr ''Trust'')]"

definition account_of_line :: "nat \<times> string \<times> string \<Rightarrow> string \<Rightarrow> js" where
  "account_of_line stamp line =
     (case stamp of
        (now, rnd, today) \<Rightarrow>
          (let parts = map trim (split CHR ''|'' line);
               rawType = toLowerCase (or_default (field parts 1) ''brokerage'');
               looked_up = member typeMap rawType;
               type = (if falsy looked_up then JStr ''Brokerage'' else looked_up)
           in createAccount now rnd
                (JStr (or_default (field parts 0) ''Account''))
                type
                (JNum (amount (field parts 2)))))"

text \<open>The records that the JSON branch makes of the elements of the parsed array:
  \<^verbatim>\<open>createGoal(g.name, g.targetAmount, g.currentAmount, g.targetDate)\<close> and
  \<^verbatim>\<open>createAccount(a.name, a.type, a.balance)\<close>. Reading a property of a \<^verbatim>\<open>null\<close> element
  throws.\<close>

definition goal_of_json :: "nat \<times> string \<times> string \<Rightarrow> js \<Rightarrow> error + js" where
  "goal_of_json stamp g =
     (case stamp of
        (now, rnd, today) \<Rightarrow>
          (case (get g ''name'', get g ''targetAmount'', get g ''currentAmount'',
                 get g ''targetDate'') of
             (Inr name, Inr targetAmount, Inr currentAmount, Inr targetDate) \<Rightarrow>
               Inr (createGoal now rnd name targetAmount currentAmount targetDate)
           | _ \<Rightarrow> Inl TypeError))"

definition account_of_json :: "nat \<times> string \<times> string \<Rightarrow> js \<Rightarrow> error + js" where
  "account_of_json stamp a =
     (case stamp of
        (now, rnd, today) \<Rightarrow>
          (case (get a ''name'', get a ''type'', get a ''balance'') of
             (Inr name, Inr type, Inr balance) \<Rightarrow> Inr (createAccount now rnd name type balance)
           | _ \<Rightarrow> Inl TypeError))"

text \<open>
  \<^verbatim>\<open>parsed.map(...)\<close> in the \<^verbatim>\<open>try\<close> block. The \<open>k\<close>-th record made during one parse
  takes the stamp \<open>stamps k\<close>. When an element throws, \<open>Inl k\<close> tells how many records were
  made before it: the \<^verbatim>\<open>catch\<close> branch goes on from that stamp.
\<close>

fun map_records ::
  "(nat \<Rightarrow> nat \<times> string \<times> string) \<Rightarrow> (nat \<times> string \<times> string \<Rightarrow> 'a \<Rightarrow> error + js) \<Rightarrow>
   nat \<Rightarrow> 'a list \<Rightarrow> nat + js list" where
  "map_records stamps f k [] = Inr []"
| "map_records stamps f k (x # xs) =
     (case f (stamps k) x of
        Inl e \<Rightarrow> Inl k
      | Inr y \<Rightarrow> (case map_records stamps f (Suc k) xs of
                   Inl k' \<Rightarrow> Inl k'
                 | Inr ys \<Rightarrow> Inr (y # ys)))"

text \<open>The \<^verbatim>\<open>catch\<close> branch: \<^verbatim>\<open>text.split('\n').filter(l => l.trim())\<close>, one record a
  line.\<close>

definition lines_of :: "string \<Rightarrow> string list" where
  "lines_of text = filter (\<lambda>l. trim l \<noteq> []) (split CHR 0x0A text)"

definition records_of_lines ::
  "(nat \<Rightarrow> nat \<times> string \<times> string) \<Rightarrow> (nat \<times> string \<times> string \<Rightarrow> string \<Rightarrow> js) \<Rightarrow>
   nat \<Rightarrow> string \<Rightarrow> js list" where
  "records_of_lines stamps f k text =
     map (\<lambda>(n, line). f (stamps (k + n)) line) (enumerate 0 (lines_of text))"

text \<open>
  The two parsers of \<^verbatim>\<open>handleAddClient\<close>. \<^verbatim>\<open>JSON.parse\<close> on a string is an argument,
  \<open>parse\<close>, which gives the value or \<open>None\<close> when it throws: no grammar of JSON is modelled.
  A text that is JSON but not an array leaves the list empty.
\<close>

definition parseGoals ::
  "(string \<Rightarrow> js option) \<Rightarrow> (nat \<Rightarrow> nat \<times> string \<times> string) \<Rightarrow> string \<Rightarrow> js list" where
  "parseGoals parse stamps goalsText =
     (if trim goalsText = [] then []
      else (case parse goalsText of
              None \<Rightarrow> records_of_lines stamps goal_of_line 0 goalsText
            | Some (JArr parsed) \<Rightarrow>
                (case map_records stamps goal_of_json 0 parsed of
                   Inl k \<Rightarrow> records_of_lines stamps goal_of_line k goalsText
                 | Inr goals \<Rightarrow> goals)
            | Some _ \<Rightarrow> []))"

definition parseAccounts ::
  "(string \<Rightarrow> js option) \<Rightarrow> (nat \<Rightarrow> nat \<times> string \<times> string) \<Rightarrow> string \<Rightarrow> js list" where
  "parseAccounts parse stamps accountsText =
     (if trim accountsText = [] then []
      else (case parse accountsText of
              None \<Rightarrow> records_of_lines stamps account_of_line 0 accountsText
            | Some (JArr parsed) \<Rightarrow>
                (case map_records stamps account_of_json 0 parsed of
                   Inl k \<Rightarrow> records_of_lines stamps account_of_line k accountsText
                 | Inr accounts \<Rightarrow> accounts)
            | Some _ \<Rightarrow> []))"

text \<open>A record is an object: what \<^verbatim>\<open>JSON.stringify\<close> writes for a Goal or an Account.\<close>

fun is_object :: "js \<Rightarrow> bool" where
  "is_object (JObj ps) = True"
| "is_object v = False"

subsection \<open>The mock CRM service (mockCrmService.ts)\<close>



subsection \<open>The AI adapter (openaiService.ts, docIngestService.ts)\<close>

text \<open>
  The platform, as far as the adapter uses it. \<open>net_fetch\<close> is \<^verbatim>\<open>fetch\<close>, which rejects
  (\<open>Inl\<close>) when the network fails; \<open>json_parse\<close> is \<^verbatim>\<open>JSON.parse\<close> on a string, \<open>None\<close>
  when it throws; \<open>json_stringify\<close> is \<^verbatim>\<open>JSON.stringify\<close> of an array or an object;
  \<open>to_String\<close> is \<^verbatim>\<open>String(v)\<close> for a value that is not a string; \<open>parse_float\<close> is
  \<^verbatim>\<open>parseFloat(v)\<close> on an arbitrary value. An operation returns its result together with
  the requests it has sent.
\<close>

record request =
  req_url :: string
  req_authorization :: string
  req_body :: js

record response =
  resp_ok :: bool
  resp_status :: nat
  resp_json :: "error + js"

record platform =
  net_fetch :: "request \<Rightarrow> error + response"
  json_parse :: "string \<Rightarrow> js option"
  json_stringify :: "js \<Rightarrow> string"
  to_String :: "js \<Rightarrow> string"
  parse_float :: "js \<Rightarrow> number"

definition OPENAI_API_URL :: string where
  "OPENAI_API_URL = ''https://api.openai.com/v1/chat/completions''"

definition missing_key :: error where
  "missing_key = Error ''Missing OpenAI API key. Set VITE_OPENAI_API_KEY in your .env file.''"

fun nullish :: "js \<Rightarrow> bool" where
  "nullish Undefined = True"
| "nullish JNull = True"
| "nullish v = False"

text \<open>\<^verbatim>\<open>v?.k\<close>, \<^verbatim>\<open>v[0]\<close> and \<^verbatim>\<open>a || b\<close>.\<close>

definition optional :: "js \<Rightarrow> string \<Rightarrow> js" where
  "optional v k = (if nullish v then Undefined else read v k)"

fun index0 :: "js \<Rightarrow> error + js" where
  "index0 Undefined = Inl TypeError"
| "index0 JNull = Inl TypeError"
| "index0 (JArr xs) = Inr (case xs of [] \<Rightarrow> Undefined | x # rest \<Rightarrow> x)"
| "index0 (JStr s) = Inr (case s of [] \<Rightarrow> Undefined | c # rest \<Rightarrow> JStr [c])"
| "index0 (JObj ps) = Inr (member ps ''0'')"
| "index0 v = Inr Undefined"

definition or_js :: "js \<Rightarrow> js \<Rightarrow> js" where
  "or_js a b = (if falsy a then b else a)"

text \<open>The error of a response that is not \<^verbatim>\<open>ok\<close>:
  \<^verbatim>\<open>const error = await response.json().catch(() => ({}));
   throw new Error(error.error?.message || `API request failed: ${response.status}`);\<close>\<close>

definition upstream_error :: "platform \<Rightarrow> response \<Rightarrow> error" where
  "upstream_error P r =
     (let err = (case resp_json r of Inl e \<Rightarrow> JObj [] | Inr v \<Rightarrow> v)
      in case get err ''error'' of
           Inl e \<Rightarrow> e
         | Inr inner \<Rightarrow>
             (let message = optional inner ''message''
              in if falsy message then Error (''API request failed: '' @ decimal (resp_status r))
                 else Error (case message of JStr s \<Rightarrow> s | _ \<Rightarrow> to_String P message)))"

text \<open>\<^verbatim>\<open>data.choices[0]?.message?.content\<close>.\<close>

definition first_content :: "js \<Rightarrow> error + js" where
  "first_content data =
     (case get data ''choices'' of
        Inl e \<Rightarrow> Inl e
      | Inr choices \<Rightarrow>
          (case index0 choices of
             Inl e \<Rightarrow> Inl e
           | Inr choice \<Rightarrow> Inr (optional (optional choice ''message'') ''content'')))"

text \<open>The body of the request of \<^verbatim>\<open>generateMeetingPrep\<close>, the object that is given to
  \<^verbatim>\<open>JSON.stringify\<close>. The prompt is built from the arguments of the operation with the
  platform's number formatting (\<^verbatim>\<open>toFixed\<close>, \<^verbatim>\<open>toLocaleString\<close>); it is an argument
  here.\<close>

definition meeting_prep_body :: "string \<Rightarrow> js" where
  "meeting_prep_body prompt =
     JObj [(''model'', JStr ''gpt-4o-mini''),
           (''messages'', JArr
              [JObj [(''role'', JStr ''system''),
                     (''content'', JStr ''You are a helpful financial advisor assistant that creates concise, actionable meeting prep guides. Always respond with valid JSON only.'')],
               JObj [(''role'', JStr ''user''), (''content'', JStr prompt)]]),
           (''temperature'', JNum (Num (7 / 10))),
           (''max_tokens'', JNum (Num 1500)),
           (''response_format'', JObj [(''type'', JStr ''json_object'')])]"

text \<open>The code fence: \<^verbatim>\<open>replace(/^```(?:json)?\n?/, '')\<close>, then
  \<^verbatim>\<open>replace(/\n?```$/, '')\<close>, when the trimmed content starts with three backticks.\<close>

definition strip_fences :: "string \<Rightarrow> string" where
  "strip_fences s =
     (if prefix ''```'' s then
        (let a = drop 3 s;
             b = (if prefix ''json'' a then drop 4 a else a);
             c = (case b of [] \<Rightarrow> b | x # rest \<Rightarrow> if x = CHR 0x0A then rest else b)
         in if suffix (CHR 0x0A # ''```'') c then take (length c - 4) c
            else if suffix ''```'' c then take (length c - 3) c
            else c)
      else s)"

record MeetingPrep =
  clientSnapshot :: string
  recentContext :: string
  keyTopicsToDiscuss :: "string list"
  openActionItems :: "string list"
  questionsToAsk :: "string list"
  potentialConcerns :: string
  relationshipNotes :: string

definition ensureString :: "platform \<Rightarrow> js \<Rightarrow> string" where
  "ensureString P v =
     (case v of
        JStr s \<Rightarrow> s
      | JNull \<Rightarrow> []
      | Undefined \<Rightarrow> []
      | JArr xs \<Rightarrow> json_stringify P v
      | JObj ps \<Rightarrow> json_stringify P v
      | _ \<Rightarrow> to_String P v)"

definition ensureStringArray :: "platform \<Rightarrow> js \<Rightarrow> string list" where
  "ensureStringArray P v =
     (if falsy v then []
      else (case v of
              JArr xs \<Rightarrow> map (ensureString P) xs
            | _ \<Rightarrow> [ensureString P v]))"

text \<open>The coercion of the parsed payload. Reading a property of a payload that is
  \<^verbatim>\<open>null\<close> throws.\<close>

definition coerce_meeting_prep :: "platform \<Rightarrow> js \<Rightarrow> error + MeetingPrep" where
  "coerce_meeting_prep P parsed =
     (if nullish parsed then Inl TypeError
      else Inr \<lparr>clientSnapshot = ensureString P (read parsed ''clientSnapshot''),
                recentContext = ensureString P (read parsed ''recentContext''),
                keyTopicsToDiscuss = ensureStringArray P (read parsed ''keyTopicsToDiscuss''),
                openActionItems = ensureStringArray P (read parsed ''openActionItems''),
                questionsToAsk = ensureStringArray P (read parsed ''questionsToAsk''),
                potentialConcerns = ensureString P (read parsed ''potentialConcerns''),
                relationshipNotes = ensureString P (read parsed ''relationshipNotes'')\<rparr>)"

text \<open>The \<^verbatim>\<open>try\<close> block: \<^verbatim>\<open>content.trim()\<close> exists on a string only.\<close>

definition parse_meeting_prep :: "platform \<Rightarrow> js \<Rightarrow> error + MeetingPrep" where
  "parse_meeting_prep P content =
     (case content of
        JStr s \<Rightarrow>
          (case json_parse P (strip_fences (trim s)) of
             None \<Rightarrow> Inl SyntaxError
           | Some parsed \<Rightarrow> coerce_meeting_prep P parsed)
      | _ \<Rightarrow> Inl TypeError)"

definition generateMeetingPrep ::
  "platform \<Rightarrow> string option \<Rightarrow> string \<Rightarrow> (error + MeetingPrep) \<times> request list" where
  "generateMeetingPrep P apiKey prompt =
     (case apiKey of
        None \<Rightarrow> (Inl missing_key, [])
      | Some key \<Rightarrow>
          if key = [] then (Inl missing_key, [])
          else
            (let req = \<lparr>req_url = OPENAI_API_URL,
                        req_authorization = ''Bearer '' @ key,
                        req_body = meeting_prep_body prompt\<rparr>
             in (case net_fetch P req of
                   Inl e \<Rightarrow> Inl e
                 | Inr response \<Rightarrow>
                     if \<not> resp_ok response then Inl (upstream_error P response)
                     else
                       (case resp_json response of
                          Inl e \<Rightarrow> Inl e
                        | Inr data \<Rightarrow>
                            (case first_content data of
                               Inl e \<Rightarrow> Inl e
                             | Inr content \<Rightarrow>
                                 if falsy content then Inl (Error ''No response from OpenAI'')
                                 else
                                   (case parse_meeting_prep P content of
                                      Inl e \<Rightarrow>
                                        Inl (Error ''Failed to parse AI response. Please try again.'')
                                    | Inr prep \<Rightarrow> Inr prep))),
                 [req])))"

text \<open>\<^verbatim>\<open>Array.prototype.join\<close> and \<^verbatim>\<open>map\<close> with a callback that may throw.\<close>

fun join :: "string \<Rightarrow> string list \<Rightarrow> string" where
  "join sep [] = []"
| "join sep [x] = x"
| "join sep (x # y # zs) = x @ sep @ join sep (y # zs)"

fun map_js :: "('a \<Rightarrow> error + 'b) \<Rightarrow> 'a list \<Rightarrow> error + 'b list" where
  "map_js f [] = Inr []"
| "map_js f (x # xs) =
     (case f x of
        Inl e \<Rightarrow> Inl e
      | Inr y \<Rightarrow> (case map_js f xs of Inl e \<Rightarrow> Inl e | Inr ys \<Rightarrow> Inr (y # ys)))"

text \<open>The prompts of \<^verbatim>\<open>parseClientFromDocuments\<close>.\<close>

definition systemPrompt :: string where
  \<open>systemPrompt = join [CHR 0x0A]
     [''You are a financial document parser. Extract client information from the provided documents and respond ONLY with valid JSON matching this exact schema:'',
      [],
      ''{'',
      ''  "id": "string (generate a unique ID like 'client-doc-' followed by timestamp)",'',
      ''  "name": "string (client's full name or household name)",'',
      ''  "aum": number (total assets under management in dollars),'',
      ''  "riskProfile": "Conservative" | "Moderate" | "Moderate-Aggressive" | "Aggressive",'',
      ''  "advisor": "string (advisor name if mentioned, otherwise 'Unassigned')",'',
      ''  "lastContact": "string (ISO date, use today's date if not mentioned)",'',
      ''  "goals": ['',
      ''    {'',
      ''      "id": "string (unique goal ID)",'',
      ''      "name": "string (goal name like 'Retirement', 'College Fund', etc.)",'',
      ''      "targetAmount": number,'',
      ''      "currentAmount": number,'',
      ''      "targetDate": "string (ISO date format YYYY-MM-DD)"'',
      ''    }'',
      ''  ],'',
      ''  "accounts": ['',
      ''    {'',
      ''      "id": "string (unique account ID)",'',
      ''      "name": "string (account name)",'',
      ''      "type": "IRA" | "Brokerage" | "401k" | "Roth IRA" | "Trust",'',
      ''      "balance": number'',
      ''    }'',
      ''  ]'',
      ''}'',
      [],
      ''Extract as much information as possible from the documents. If a field is not explicitly mentioned:'',
      ''- For goals: infer reasonable targets based on context'',
      ''- For accounts: create entries for any mentioned accounts/holdings'',
      ''- For riskProfile: infer from investment preferences or age mentioned'',
      ''- Generate unique IDs with format 'goal-doc-X' or 'acc-doc-X'' @ [CHR 0x27],
      [],
      ''Respond ONLY with the JSON object, no additional text or markdown.'']\<close>

definition userPrompt :: "string list \<Rightarrow> string" where
  "userPrompt docs =
     join [CHR 0x0A]
       [''Parse the following financial documents and extract client information:'',
        [],
        join ([CHR 0x0A, CHR 0x0A] @ ''----'' @ [CHR 0x0A, CHR 0x0A]) docs,
        [],
        ''Return a single JSON object matching the Client schema.'']"

definition ingest_body :: "string list \<Rightarrow> js" where
  "ingest_body docs =
     JObj [(''model'', JStr ''gpt-4o-mini''),
           (''messages'', JArr
              [JObj [(''role'', JStr ''system''), (''content'', JStr systemPrompt)],
               JObj [(''role'', JStr ''user''), (''content'', JStr (userPrompt docs))]]),
           (''temperature'', JNum (Num (3 / 10))),
           (''max_tokens'', JNum (Num 2000)),
           (''response_format'', JObj [(''type'', JStr ''json_object'')])]"

text \<open>
  The validation of the parsed payload. \<open>now\<close> is \<^verbatim>\<open>Date.now()\<close> and \<open>today\<close> is
  \<^verbatim>\<open>new Date().toISOString().split('T')[0]\<close>; the reads of the clock within one call are
  given the same value.
\<close>

definition number_or_zero :: "platform \<Rightarrow> js \<Rightarrow> js" where
  "number_or_zero P x =
     (case x of JNum n \<Rightarrow> JNum n | _ \<Rightarrow> or_js (JNum (parse_float P x)) (JNum (Num 0)))"

definition validateRiskProfile :: "js \<Rightarrow> js" where
  "validateRiskProfile profile =
     (if profile \<in> set [JStr ''Conservative'', JStr ''Moderate'', JStr ''Moderate-Aggressive'',
                           JStr ''Aggressive'']
      then profile else JStr ''Moderate'')"

definition validateGoals :: "platform \<Rightarrow> nat \<Rightarrow> string \<Rightarrow> js \<Rightarrow> error + js list" where
  "validateGoals P now today goals =
     (case goals of
        JArr gs \<Rightarrow>
          map_js (\<lambda>(idx, goal).
              if nullish goal then Inl TypeError
              else Inr (JObj
                [(''id'', or_js (read goal ''id'')
                            (JStr (''goal-doc-'' @ decimal idx @ ''-'' @ decimal now))),
                 (''name'', or_js (read goal ''name'') (JStr ''Unnamed Goal'')),
                 (''targetAmount'', number_or_zero P (read goal ''targetAmount'')),
                 (''currentAmount'', number_or_zero P (read goal ''currentAmount'')),
                 (''targetDate'', or_js (read goal ''targetDate'') (JStr today))]))
            (enumerate 0 gs)
      | _ \<Rightarrow> Inr [])"

definition validateAccounts :: "platform \<Rightarrow> nat \<Rightarrow> js \<Rightarrow> error + js list" where
  "validateAccounts P now accounts =
     (case accounts of
        JArr as \<Rightarrow>
          map_js (\<lambda>(idx, account).
              if nullish account then Inl TypeError
              else Inr (JObj
                [(''id'', or_js (read account ''id'')
                            (JStr (''acc-doc-'' @ decimal idx @ ''-'' @ decimal now))),
                 (''name'', or_js (read account ''name'') (JStr ''Unnamed Account'')),
                 (''type'',
                  if read account ''type'' \<in> set [JStr ''IRA'', JStr ''Brokerage'', JStr ''401k'',
                                                      JStr ''Roth IRA'', JStr ''Trust'']
                  then read account ''type'' else JStr ''Brokerage''),
                 (''balance'', number_or_zero P (read account ''balance''))]))
            (enumerate 0 as)
      | _ \<Rightarrow> Inr [])"

definition validate_client :: "platform \<Rightarrow> nat \<Rightarrow> string \<Rightarrow> js \<Rightarrow> error + js" where
  "validate_client P now today parsed =
     (if nullish parsed then Inl TypeError
      else (case validateGoals P now today (read parsed ''goals'') of
              Inl e \<Rightarrow> Inl e
            | Inr goals \<Rightarrow>
                (case validateAccounts P now (read parsed ''accounts'') of
                   Inl e \<Rightarrow> Inl e
                 | Inr accounts \<Rightarrow>
                     Inr (JObj
                       [(''id'', or_js (read parsed ''id'') (JStr (''client-doc-'' @ decimal now))),
                        (''name'', or_js (read parsed ''name'') (JStr ''Unknown Client'')),
                        (''aum'', number_or_zero P (read parsed ''aum'')),
                        (''riskProfile'', validateRiskProfile (read parsed ''riskProfile'')),
                        (''advisor'', or_js (read parsed ''advisor'') (JStr ''Unassigned'')),
                        (''lastContact'', or_js (read parsed ''lastContact'') (JStr today)),
                        (''goals'', JArr goals),
                        (''accounts'', JArr accounts)]))))"

text \<open>\<^verbatim>\<open>JSON.parse(content)\<close> turns a content that is not a string into one first.\<close>

definition parse_client :: "platform \<Rightarrow> nat \<Rightarrow> string \<Rightarrow> js \<Rightarrow> error + js" where
  "parse_client P now today content =
     (case json_parse P (case content of JStr s \<Rightarrow> s | _ \<Rightarrow> to_String P content) of
        None \<Rightarrow> Inl SyntaxError
      | Some parsed \<Rightarrow> validate_client P now today parsed)"

definition parseClientFromDocuments ::
  "platform \<Rightarrow> string option \<Rightarrow> nat \<Rightarrow> string \<Rightarrow> string list \<Rightarrow> (error + js) \<times> request list" where
  "parseClientFromDocuments P apiKey now today docs =
     (case apiKey of
        None \<Rightarrow> (Inl missing_key, [])
      | Some key \<Rightarrow>
          if key = [] then (Inl missing_key, [])
          else
            (let req = \<lparr>req_url = OPENAI_API_URL,
                        req_authorization = ''Bearer '' @ key,
                        req_body = ingest_body docs\<rparr>
             in (case net_fetch P req of
                   Inl e \<Rightarrow> Inl e
                 | Inr response \<Rightarrow>
                     if \<not> resp_ok response then Inl (upstream_error P response)
                     else
                       (case resp_json response of
                          Inl e \<Rightarrow> Inl e
                        | Inr data \<Rightarrow>
                            (case first_content data of
                               Inl e \<Rightarrow> Inl e
                             | Inr content \<Rightarrow>
                                 if falsy content then Inl (Error ''No response from OpenAI'')
                                 else
                                   (case parse_client P now today content of
                                      Inl e \<Rightarrow>
                                        Inl (Error ''Failed to parse client data from documents. Please try again.'')
                                    | Inr client \<Rightarrow> Inr client))),
                 [req])))"

subsection \<open>Concrete inputs\<close>

text \<open>A client as the "add client" form passes it to \<^verbatim>\<open>addClient\<close>, the record the
  store makes of it at clock reading 1700000000000, and a session of calls.\<close>

definition ann :: "(string \<times> js) list" where
  "ann =
     [(''name'', JStr ''Ann Lee''), (''aum'', JNum (Num 1000)),
      (''riskProfile'', JStr ''Moderate''), (''advisor'', JStr ''Sarah Mitchell''),
      (''lastContact'', JStr ''2025-01-01''), (''goals'', JArr []), (''accounts'', JArr [])]"

definition ann_stored :: js where
  "ann_stored = JObj (ann @ [(''id'', JStr ''client-custom-1700000000000-k3j2h1g9f'')])"

definition session :: "call list" where
  "session =
     [ListAll,
      Create 1700000000000 ''k3j2h1g9f'' ann,
      IsCustom ''client-custom-1700000000000-k3j2h1g9f'',
      Update ''client-001'' [(''name'', JStr ''Changed'')],
      Remove ''client-custom-1700000000000-k3j2h1g9f'',
      ListAll]"

text \<open>The storage after \<^verbatim>\<open>addClient\<close> has stored that client.\<close>

definition ann_world :: world where
  "ann_world =
     \<lparr>builtin = mockClients,
      localStorage = [CLIENTS_KEY \<mapsto> Json (JArr [ann_stored])]\<rparr>"

text \<open>A session that gives the stored client the id of a built-in one and then deletes by
  that id.\<close>

definition takeover :: "call list" where
  "takeover =
     [Create 1700000000000 ''k3j2h1g9f'' ann,
      Update ''client-custom-1700000000000-k3j2h1g9f'' [(''id'', JStr ''client-001'')],
      Remove ''client-001'']"

text \<open>Storage whose two keys hold damaged text: one that is not JSON, one that is empty.
  And storage whose two keys hold the JSON text \<^verbatim>\<open>5\<close>.\<close>

definition garbled_world :: world where
  "garbled_world =
     \<lparr>builtin = mockClients,
      localStorage = [CLIENTS_KEY \<mapsto> Unparseable, INTERACTIONS_KEY \<mapsto> Empty]\<rparr>"

definition number_world :: world where
  "number_world =
     \<lparr>builtin = mockClients,
      localStorage = [CLIENTS_KEY \<mapsto> Json (JNum (Num 5)),
                      INTERACTIONS_KEY \<mapsto> Json (JNum (Num 5))]\<rparr>"

text \<open>Storage that holds three interactions, two of them of the first built-in client, and
  an interaction of an earlier day for that client.\<close>

definition note_a :: js where
  "note_a =
     JObj [(''clientId'', JStr ''client-001''), (''date'', JStr ''2024-10-20''),
           (''type'', JStr ''call''), (''title'', JStr ''Market Volatility Check-in''),
           (''notes'', JStr ''Quick call after October market swings.''),
           (''id'', JStr ''interaction-1700000000000-aaaaaaaaa''),
           (''createdAt'', JStr ''2023-11-14T22:13:20.000Z'')]"

definition note_b :: js where
  "note_b =
     JObj [(''clientId'', JStr ''client-001''), (''date'', JStr ''2024-11-15''),
           (''type'', JStr ''meeting''), (''title'', JStr ''Quarterly Portfolio Review''),
           (''notes'', JStr ''Met with Margaret to review Q3 performance.''),
           (''id'', JStr ''interaction-1700000000001-bbbbbbbbb''),
           (''createdAt'', JStr ''2023-11-14T22:13:20.001Z'')]"

definition note_c :: js where
  "note_c =
     JObj [(''clientId'', JStr ''client-002''), (''date'', JStr ''2024-08-22''),
           (''type'', JStr ''meeting''), (''title'', JStr ''Mid-Year Review''),
           (''notes'', JStr ''Strong first half performance.''),
           (''id'', JStr ''interaction-1700000000002-ccccccccc''),
           (''createdAt'', JStr ''2023-11-14T22:13:20.002Z'')]"

definition history_world :: world where
  "history_world =
     \<lparr>builtin = mockClients,
      localStorage = [INTERACTIONS_KEY \<mapsto> Json (JArr [note_a, note_b, note_c])]\<rparr>"

definition earlier_note :: "(string \<times> js) list" where
  "earlier_note =
     [(''clientId'', JStr ''client-001''), (''type'', JStr ''meeting''),
      (''title'', JStr ''Annual Planning Session''), (''date'', JStr ''2024-09-05''),
      (''notes'', JStr ''Annual review with Margaret and James.'')]"

text \<open>Storage that holds three interactions of one client, the second with the empty date
  that the form's cleared date field gives.\<close>

definition january :: js where
  "january =
     JObj [(''clientId'', JStr ''client-001''), (''date'', JStr ''2024-01-01''),
           (''type'', JStr ''call''), (''title'', JStr ''New year call''),
           (''notes'', JStr ''Called.''),
           (''id'', JStr ''interaction-1700000000000-aaaaaaaaa''),
           (''createdAt'', JStr ''2023-11-14T22:13:20.000Z'')]"

definition undated :: js where
  "undated =
     JObj [(''clientId'', JStr ''client-001''), (''type'', JStr ''note''),
           (''title'', JStr ''A note''), (''date'', JStr []),
           (''notes'', JStr ''Noted.''),
           (''id'', JStr ''interaction-1700000000001-bbbbbbbbb''),
           (''createdAt'', JStr ''2023-11-14T22:13:20.001Z'')]"

definition june :: js where
  "june =
     JObj [(''clientId'', JStr ''client-001''), (''date'', JStr ''2024-06-01''),
           (''type'', JStr ''meeting''), (''title'', JStr ''Mid-year meeting''),
           (''notes'', JStr ''Met.''),
           (''id'', JStr ''interaction-1700000000002-ccccccccc''),
           (''createdAt'', JStr ''2023-11-14T22:13:20.002Z'')]"

definition undated_world :: world where
  "undated_world =
     \<lparr>builtin = mockClients,
      localStorage = [INTERACTIONS_KEY \<mapsto> Json (JArr [january, undated, june])]\<rparr>"

text \<open>Selecting a custom client twice in the browser with nothing stored: each selection
  calls \<^verbatim>\<open>initializeSampleInteractions\<close> with the id of that client.\<close>

definition first_stamps :: "nat \<Rightarrow> nat \<times> string \<times> string" where
  "first_stamps n = (1700000000000 + n, ''aaaaaaaaa'', ''2023-11-14T22:13:20.000Z'')"

definition second_stamps :: "nat \<Rightarrow> nat \<times> string \<times> string" where
  "second_stamps n = (1700000005000 + n, ''bbbbbbbbb'', ''2023-11-14T22:13:25.000Z'')"

definition selected_once :: world where
  "selected_once =
     snd (initializeSampleInteractions getTime_ymd first_stamps ''client-custom-1'' fresh_world)"

definition selected_twice :: world where
  "selected_twice =
     snd (initializeSampleInteractions getTime_ymd second_stamps ''client-custom-1'' selected_once)"

text \<open>The titles of a list of stored interactions.\<close>

definition titles :: "js \<Rightarrow> js list" where
  "titles v =
     (case v of
        JArr xs \<Rightarrow> map (\<lambda>x. case get x ''title'' of Inl e \<Rightarrow> Undefined | Inr t \<Rightarrow> t) xs
      | _ \<Rightarrow> [])"

text \<open>Stand-ins for \<^verbatim>\<open>JSON.parse\<close> in the examples: one that throws, for texts that are
  not JSON, and one that knows the value of one text.\<close>

definition not_json :: "string \<Rightarrow> js option" where
  "not_json s = None"

definition parse_known :: "string \<Rightarrow> js \<Rightarrow> string \<Rightarrow> js option" where
  "parse_known known v s = (if s = known then Some v else None)"

text \<open>Stamps for the records that one submission of the "add client" form makes.\<close>

definition form_stamps :: "nat \<Rightarrow> nat \<times> string \<times> string" where
  "form_stamps n = (1700000000000 + n, ''aaaaaaaaa'', ''2025-01-01'')"

text \<open>A goal and an account of the first built-in client, and the texts that
  \<^verbatim>\<open>JSON.stringify\<close> writes for the lists that hold just them.\<close>

definition retirement_goal :: js where
  "retirement_goal =
     JObj [(''id'', JStr ''goal-001''), (''name'', JStr ''Retirement at 62''),
           (''targetAmount'', JNum (Num 3000000)), (''currentAmount'', JNum (Num 2100000)),
           (''targetDate'', JStr ''2029-06-01'')]"

definition goals_text :: string where
  \<open>goals_text = ''[{"id":"goal-001","name":"Retirement at 62","targetAmount":3000000,"currentAmount":2100000,"targetDate":"2029-06-01"}]''\<close>

definition ira_account :: js where
  "ira_account =
     JObj [(''id'', JStr ''acc-001''), (''name'', JStr ''Traditional IRA''),
           (''type'', JStr ''IRA''), (''balance'', JNum (Num 890000))]"

definition accounts_text :: string where
  \<open>accounts_text = ''[{"id":"acc-001","name":"Traditional IRA","type":"IRA","balance":890000}]''\<close>

text \<open>
  Platforms for the examples of the AI adapter. \<open>offline\<close> has a network that fails.
  \<open>replying content v\<close> has a provider that answers every request with the message
  \<open>content\<close>, whose JSON value is \<open>v\<close>. The conversions of numbers and objects to strings,
  which the examples do not reach, are given the empty string.
\<close>

definition offline :: platform where
  "offline =
     \<lparr>net_fetch = (\<lambda>req. Inl (Error ''Failed to fetch'')),
      json_parse = not_json,
      json_stringify = (\<lambda>v. []),
      to_String = (\<lambda>v. []),
      parse_float = (\<lambda>v. NaN)\<rparr>"

definition reply :: "string \<Rightarrow> response" where
  "reply content =
     \<lparr>resp_ok = True,
      resp_status = 200,
      resp_json = Inr (JObj [(''choices'', JArr
                    [JObj [(''index'', JNum (Num 0)),
                           (''message'', JObj [(''role'', JStr ''assistant''),
                                               (''content'', JStr content)])]])])\<rparr>"

definition replying :: "string \<Rightarrow> js \<Rightarrow> platform" where
  "replying content v =
     \<lparr>net_fetch = (\<lambda>req. Inr (reply content)),
      json_parse = parse_known content v,
      json_stringify = (\<lambda>v. []),
      to_String = (\<lambda>v. []),
      parse_float = (\<lambda>v. NaN)\<rparr>"

text \<open>Two answers of the provider: one whose \<^verbatim>\<open>keyTopicsToDiscuss\<close> is a string, one whose
  \<^verbatim>\<open>keyTopicsToDiscuss\<close> is the empty string.\<close>

definition topic_text :: string where
  \<open>topic_text = ''{"clientSnapshot":"Client since 2015.","keyTopicsToDiscuss":"Retirement timeline"}''\<close>

definition topic_payload :: js where
  "topic_payload =
     JObj [(''clientSnapshot'', JStr ''Client since 2015.''),
           (''keyTopicsToDiscuss'', JStr ''Retirement timeline'')]"

definition no_topic_text :: string where
  \<open>no_topic_text = ''{"clientSnapshot":"Client since 2015.","keyTopicsToDiscuss":""}''\<close>

definition no_topic_payload :: js where
  "no_topic_payload =
     JObj [(''clientSnapshot'', JStr ''Client since 2015.''),
           (''keyTopicsToDiscuss'', JStr [])]"

section \<open>Properties\<close>

subsection \<open>Reading values\<close>

lemma member_update [simp]: "member (AList.update k v ps) k = v"
  by (simp add: member_def update_conv')

lemma member_spread_single [simp]: "member (object_spread client [(k, v)]) k = v"
  by (simp add: object_spread_def)

lemma isCustomClient_custom_id [simp]: "isCustomClient (custom_id now rnd)"
  by (simp add: isCustomClient_def custom_id_def)

lemma decimal_example: "decimal 1700000000000 = ''1700000000000''"
  by (simp add: decimal.simps digit_char_def)

lemma custom_id_example:
  "custom_id 1700000000000 ''k3j2h1g9f'' = ''client-custom-1700000000000-k3j2h1g9f''"
  by (simp add: custom_id_def decimal_example)

subsection \<open>The Client Store\<close>

lemma addClient_frame:
  assumes "addClient now rnd client w = (r, w')"
  shows "builtin w' = builtin w"
    and "k \<noteq> CLIENTS_KEY \<Longrightarrow> localStorage w' k = localStorage w k"
    and "r = Inr c \<Longrightarrow> get c ''id'' = Inr (JStr (custom_id now rnd))"
  using assms by (auto simp: addClient_def Let_def split: js.splits)

lemma updateClient_frame:
  assumes "updateClient i updates w = (r, w')"
  shows "builtin w' = builtin w"
    and "k \<noteq> CLIENTS_KEY \<Longrightarrow> localStorage w' k = localStorage w k"
  using assms
  by (auto simp: updateClient_def Let_def split: js.splits sum.splits option.splits)

lemma deleteClient_frame:
  assumes "deleteClient i w = (r, w')"
  shows "builtin w' = builtin w"
    and "k \<noteq> CLIENTS_KEY \<Longrightarrow> localStorage w' k = localStorage w k"
  using assms
  by (auto simp: deleteClient_def Let_def split: js.splits sum.splits if_splits)

lemma step_frame:
  assumes "step c w = (out, w')"
  shows "builtin w' = builtin w"
    and "k \<noteq> CLIENTS_KEY \<Longrightarrow> localStorage w' k = localStorage w k"
    and "out = Created x \<Longrightarrow> \<exists>i. get x ''id'' = Inr (JStr i) \<and> isCustomClient i"
proof -
  show "builtin w' = builtin w"
    using assms
    by (cases c)
      (auto split: sum.splits prod.splits
        dest: addClient_frame(1) updateClient_frame(1) deleteClient_frame(1))
  show "k \<noteq> CLIENTS_KEY \<Longrightarrow> localStorage w' k = localStorage w k"
    using assms
    by (cases c)
      (auto split: sum.splits prod.splits
        dest: addClient_frame(2) updateClient_frame(2) deleteClient_frame(2))
  show "out = Created x \<Longrightarrow> \<exists>i. get x ''id'' = Inr (JStr i) \<and> isCustomClient i"
    using assms
    by (cases c) (auto split: sum.splits prod.splits dest!: addClient_frame(3))
qed

lemma run_frame:
  "run cs w = (outs, w') \<Longrightarrow>
     builtin w' = builtin w \<and>
     (\<forall>k. k \<noteq> CLIENTS_KEY \<longrightarrow> localStorage w' k = localStorage w k) \<and>
     (\<forall>c. Created c \<in> set outs \<longrightarrow> (\<exists>i. get c ''id'' = Inr (JStr i) \<and> isCustomClient i))"
proof (induction cs arbitrary: w outs w')
  case Nil
  then show ?case by simp
next
  case (Cons c cs)
  obtain out w1 where s: "step c w = (out, w1)" by (cases "step c w")
  obtain outs1 w2 where r: "run cs w1 = (outs1, w2)" by (cases "run cs w1")
  from Cons.prems s r have eq: "outs = out # outs1" "w' = w2" by auto
  note ih = Cons.IH [OF r]
  show ?case
    using ih step_frame [OF s] unfolding eq by auto
qed

text \<open>
  C1. Whatever calls are made to the Client Store, in whatever order and from whatever
  state: the built-in clients are afterwards what they were, no storage key other than the
  custom-client key has changed, and every client that \<^verbatim>\<open>addClient\<close> returned carries an id
  that \<^verbatim>\<open>isCustomClient\<close> accepts.
\<close>

theorem store_never_touches_builtins:
  "builtin (snd (run cs w)) = builtin w \<and>
   (\<forall>k. k \<noteq> CLIENTS_KEY \<longrightarrow> localStorage (snd (run cs w)) k = localStorage w k) \<and>
   (\<forall>c. Created c \<in> set (fst (run cs w)) \<longrightarrow>
        (\<exists>i. get c ''id'' = Inr (JStr i) \<and> isCustomClient i))"
  using run_frame [of cs w "fst (run cs w)" "snd (run cs w)"] by simp

theorem store_never_touches_builtins_witness:
  "Created ann_stored \<in> set (fst (run session fresh_world)) \<and>
   (\<exists>i. get ann_stored ''id'' = Inr (JStr i) \<and> isCustomClient i) \<and>
   builtin (snd (run session fresh_world)) = mockClients \<and>
   INTERACTIONS_KEY \<noteq> CLIENTS_KEY \<and>
   localStorage (snd (run session fresh_world)) INTERACTIONS_KEY = None"
proof -
  have outs: "fst (run session fresh_world) =
      [Listed mockClients, Created ann_stored, Custom True, Updated JNull,
       Removed True, Listed mockClients]"
    by (simp add: session_def fresh_world_def getAllClients_def getCustomClients_def
        addClient_def updateClient_def deleteClient_def isCustomClient_def custom_id_example
        ann_stored_def ann_def object_spread_def JSON_stringify_def prop_is_def
        prop_is_not_def member_def CLIENTS_KEY_def Object_prototype_def Let_def)
  have keys: "INTERACTIONS_KEY \<noteq> CLIENTS_KEY"
    by (simp add: INTERACTIONS_KEY_def CLIENTS_KEY_def)
  have start: "builtin fresh_world = mockClients"
    "localStorage fresh_world INTERACTIONS_KEY = None"
    by (simp_all add: fresh_world_def)
  from outs have "Created ann_stored \<in> set (fst (run session fresh_world))"
    by simp
  then show ?thesis
    using store_never_touches_builtins [of session fresh_world] keys start by metis
qed

text \<open>
  C4, as the code has it. A stored text that is absent, empty or not JSON reads as the
  empty list, in both stores, and the reads built on it raise nothing. A text that is JSON
  is returned as parsed, whatever its shape: the \<^verbatim>\<open>catch\<close> is for the parser's exception
  only.
\<close>

theorem reads_fail_soft:
  "(localStorage w CLIENTS_KEY \<in> {None, Some Empty, Some Unparseable} \<longrightarrow>
      getCustomClients w = JArr [] \<and> getAllClients w = Inr (builtin w)) \<and>
   (localStorage w INTERACTIONS_KEY \<in> {None, Some Empty, Some Unparseable} \<longrightarrow>
      getAllInteractions w = JArr [] \<and> getClientInteractions getTime clientId w = Inr []) \<and>
   (localStorage w CLIENTS_KEY = Some (Json v) \<longrightarrow> getCustomClients w = v) \<and>
   (localStorage w INTERACTIONS_KEY = Some (Json v) \<longrightarrow> getAllInteractions w = v)"
  by (auto simp: getCustomClients_def getAllClients_def getAllInteractions_def
      getClientInteractions_def sort_js_def)

theorem reads_fail_soft_witness:
  "localStorage garbled_world CLIENTS_KEY \<in> {None, Some Empty, Some Unparseable} \<and>
   getCustomClients garbled_world = JArr [] \<and>
   getAllClients garbled_world = Inr mockClients \<and>
   localStorage garbled_world INTERACTIONS_KEY \<in> {None, Some Empty, Some Unparseable} \<and>
   getAllInteractions garbled_world = JArr [] \<and>
   getClientInteractions getTime_ymd ''client-001'' garbled_world = Inr [] \<and>
   localStorage number_world CLIENTS_KEY = Some (Json (JNum (Num 5))) \<and>
   getCustomClients number_world = JNum (Num 5) \<and>
   localStorage number_world INTERACTIONS_KEY = Some (Json (JNum (Num 5))) \<and>
   getAllInteractions number_world = JNum (Num 5)"
proof -
  have g: "localStorage garbled_world CLIENTS_KEY = Some Unparseable"
    "localStorage garbled_world INTERACTIONS_KEY = Some Empty"
    "builtin garbled_world = mockClients"
    by (simp_all add: garbled_world_def CLIENTS_KEY_def INTERACTIONS_KEY_def)
  have n: "localStorage number_world CLIENTS_KEY = Some (Json (JNum (Num 5)))"
    "localStorage number_world INTERACTIONS_KEY = Some (Json (JNum (Num 5)))"
    by (simp_all add: number_world_def CLIENTS_KEY_def INTERACTIONS_KEY_def)
  show ?thesis
    using reads_fail_soft [of garbled_world getTime_ymd "''client-001''" JNull]
      reads_fail_soft [of number_world getTime_ymd "''client-001''" "JNum (Num 5)"] g n
    by simp
qed

text \<open>
  C4 as stated fails on a stored text that is JSON but not an array, such as the text
  \<^verbatim>\<open>5\<close>: \<^verbatim>\<open>getCustomClients\<close> returns the number, and \<^verbatim>\<open>getAllClients\<close>, which spreads
  it, throws.
\<close>

theorem reads_fail_soft_counterexample:
  "getCustomClients number_world \<noteq> JArr [] \<and>
   getAllClients number_world = Inl TypeError \<and>
   getClientInteractions getTime_ymd ''client-001'' number_world = Inl TypeError"
  by (simp add: number_world_def getCustomClients_def getAllClients_def CLIENTS_KEY_def
      INTERACTIONS_KEY_def getClientInteractions_def getAllInteractions_def)

text \<open>What \<^verbatim>\<open>JSON.stringify\<close> writes of a record keeps a string property as it is.\<close>

lemma map_of_jsonify_string:
  "map_of ps k = Some (JStr s) \<Longrightarrow>
   map_of (map (\<lambda>p. (fst p, jsonify (snd p))) (filter (\<lambda>p. \<not> left_out (snd p)) ps)) k
     = Some (JStr s)"
  by (induction ps) (auto split: if_splits)

lemma not_inherited_id [simp]: "map_of Object_prototype ''id'' = None"
  by (simp add: Object_prototype_def)

lemma get_string_own:
  "get c ''id'' = Inr (JStr j) \<longleftrightarrow> (\<exists>ps. c = JObj ps \<and> map_of ps ''id'' = Some (JStr j))"
  by (cases c) (auto simp: member_def split: option.splits)

lemma get_id_jsonify:
  "get c ''id'' = Inr (JStr j) \<Longrightarrow> get (jsonify c) ''id'' = Inr (JStr j)"
  by (auto simp: get_string_own dest: map_of_jsonify_string)

lemma custom_ids_only_filter:
  "custom_ids_only cs \<Longrightarrow> \<not> isCustomClient i \<Longrightarrow>
   filter_js (prop_is_not ''id'' i) cs = Inr cs"
proof (induction cs)
  case Nil
  then show ?case by simp
next
  case (Cons c cs)
  from Cons.prems obtain j where j: "get c ''id'' = Inr (JStr j)" "isCustomClient j"
    by (auto simp: custom_ids_only_def split: sum.splits js.splits)
  with Cons.prems have "j \<noteq> i" by auto
  with j have "prop_is_not ''id'' i c = Inr True"
    by (simp add: prop_is_not_def)
  moreover from Cons have "filter_js (prop_is_not ''id'' i) cs = Inr cs"
    by (simp add: custom_ids_only_def)
  ultimately show ?case by simp
qed

text \<open>The stored list keeps that form under every call but \<^verbatim>\<open>updateClient\<close>, whose
  \<^verbatim>\<open>updates\<close> may hold an \<^verbatim>\<open>id\<close>; the browser with nothing stored has it.\<close>

lemma custom_ids_only_jsonify: "custom_ids_only cs \<Longrightarrow> custom_ids_only (map jsonify cs)"
  by (induction cs)
    (auto simp: custom_ids_only_def get_id_jsonify split: sum.splits js.splits)

lemma custom_ids_only_filter_js:
  "custom_ids_only cs \<Longrightarrow>
   \<exists>ys. filter_js (prop_is_not ''id'' i) cs = Inr ys \<and> custom_ids_only ys"
proof (induction cs)
  case Nil
  then show ?case by (simp add: custom_ids_only_def)
next
  case (Cons c cs)
  then obtain ys where ys: "filter_js (prop_is_not ''id'' i) cs = Inr ys" "custom_ids_only ys"
    by (auto simp: custom_ids_only_def)
  from Cons.prems obtain j where j: "get c ''id'' = Inr (JStr j)" "isCustomClient j"
    by (auto simp: custom_ids_only_def split: sum.splits js.splits)
  then have "prop_is_not ''id'' i c = Inr (JStr j \<noteq> JStr i)"
    by (simp add: prop_is_not_def)
  with ys j show ?case
    by (auto simp: custom_ids_only_def)
qed

lemma step_keeps_custom_ids:
  assumes "\<not> is_update c"
    and "getCustomClients w = JArr cs"
    and "custom_ids_only cs"
  shows "\<exists>cs'. getCustomClients (snd (step c w)) = JArr cs' \<and> custom_ids_only cs'"
proof (cases c)
  case (Create now rnd client)
  have "custom_ids_only
      (map jsonify cs @ [jsonify (JObj (object_spread client [(''id'', JStr (custom_id now rnd))]))])"
    using custom_ids_only_jsonify [OF assms(3)]
      get_id_jsonify [of "JObj (object_spread client [(''id'', JStr (custom_id now rnd))])"
        "custom_id now rnd"]
    by (simp add: custom_ids_only_def del: jsonify.simps)
  moreover have "jsonify (JArr xs) = JArr (map jsonify xs)" for xs
    by simp
  ultimately show ?thesis
    using Create assms(2)
    by (simp add: addClient_def Let_def getCustomClients_def JSON_stringify_def
        del: jsonify.simps)
next
  case (Remove i)
  from custom_ids_only_filter_js [OF assms(3), of i]
  obtain ys where ys: "filter_js (prop_is_not ''id'' i) cs = Inr ys" "custom_ids_only ys"
    by blast
  with Remove assms(2,3) custom_ids_only_jsonify [OF ys(2)] show ?thesis
    by (auto simp: deleteClient_def getCustomClients_def JSON_stringify_def)
next
  case (Update i updates)
  with assms(1) show ?thesis by simp
qed (use assms in auto)

lemma run_keeps_custom_ids:
  assumes "list_all (\<lambda>c. \<not> is_update c) calls"
    and "getCustomClients w = JArr cs"
    and "custom_ids_only cs"
  shows "\<exists>cs'. getCustomClients (snd (run calls w)) = JArr cs' \<and> custom_ids_only cs'"
  using assms
proof (induction calls arbitrary: w cs)
  case Nil
  then show ?case by auto
next
  case (Cons c calls)
  from Cons.prems have "\<not> is_update c" by simp
  from step_keeps_custom_ids [OF this Cons.prems(2,3)]
  obtain cs1 where cs1: "getCustomClients (snd (step c w)) = JArr cs1" "custom_ids_only cs1"
    by blast
  from Cons.prems(1) have "list_all (\<lambda>c. \<not> is_update c) calls" by simp
  from Cons.IH [OF this cs1]
  obtain cs' where "getCustomClients (snd (run calls (snd (step c w)))) = JArr cs'"
    "custom_ids_only cs'"
    by blast
  then show ?case
    by (cases "step c w"; cases "run calls (snd (step c w))") auto
qed

lemma fresh_world_custom_ids:
  "getCustomClients fresh_world = JArr [] \<and> custom_ids_only []"
  by (simp add: getCustomClients_def fresh_world_def custom_ids_only_def)

text \<open>
  C6, as the code has it. \<^verbatim>\<open>deleteClient\<close> does not look at the prefix of the id, it
  removes the stored records that carry the id. So an id without the custom prefix is
  refused when no stored record carries such an id, which is so as long as the stored list
  holds what \<^verbatim>\<open>addClient\<close> wrote: then the call returns \<^verbatim>\<open>false\<close>, throws nothing, and
  leaves the built-in clients and the storage as they were.
\<close>

theorem deleteClient_refuses_builtin:
  assumes "\<not> isCustomClient i"
    and "getCustomClients w = JArr cs"
    and "custom_ids_only cs"
  shows "deleteClient i w = (Inr False, w)"
  using assms custom_ids_only_filter [of cs i] by (simp add: deleteClient_def)

theorem deleteClient_refuses_builtin_witness:
  "\<not> isCustomClient ''client-001'' \<and>
   getCustomClients ann_world = JArr [ann_stored] \<and>
   custom_ids_only [ann_stored] \<and>
   deleteClient ''client-001'' ann_world = (Inr False, ann_world)"
proof -
  have a: "\<not> isCustomClient ''client-001''"
    by (simp add: isCustomClient_def)
  have b: "getCustomClients ann_world = JArr [ann_stored]"
    by (simp add: ann_world_def getCustomClients_def CLIENTS_KEY_def)
  have c: "custom_ids_only [ann_stored]"
    by (simp add: custom_ids_only_def ann_stored_def ann_def member_def isCustomClient_def)
  show ?thesis
    using deleteClient_refuses_builtin [OF a b c] a b c by simp
qed

text \<open>
  C6 as stated fails once a stored record carries a built-in id, and the store's own
  \<^verbatim>\<open>updateClient\<close> can put one there, since \<^verbatim>\<open>updates\<close> may hold an \<^verbatim>\<open>id\<close>: after it,
  \<^verbatim>\<open>deleteClient('client-001')\<close> returns \<^verbatim>\<open>true\<close> and rewrites the stored list.
\<close>

theorem deleteClient_refuses_builtin_counterexample:
  "\<not> isCustomClient ''client-001'' \<and>
   fst (run takeover fresh_world) =
     [Created ann_stored,
      Updated (JObj (ann @ [(''id'', JStr ''client-001'')])),
      Removed True]"
  by (simp add: takeover_def fresh_world_def getCustomClients_def
      addClient_def updateClient_def deleteClient_def isCustomClient_def custom_id_example
      ann_stored_def ann_def object_spread_def JSON_stringify_def prop_is_def
      prop_is_not_def member_def CLIENTS_KEY_def Object_prototype_def Let_def)

subsection \<open>The Interaction Store\<close>

lemma filter_js_total:
  "(\<And>x. x \<in> set xs \<Longrightarrow> p x = Inr (q x)) \<Longrightarrow> filter_js p xs = Inr (filter q xs)"
  by (induction xs) auto

lemma mset_insert_sorted [simp]: "mset (insert_sorted cmp x ys) = add_mset x (mset ys)"
  by (induction ys) auto

lemma mset_sort_js [simp]: "mset (sort_js cmp xs) = mset xs"
  by (induction xs) (auto simp: sort_js_def)

lemma set_sort_js [simp]: "set (sort_js cmp xs) = set xs"
  using mset_sort_js [of cmp xs] by (metis set_mset_mset)

lemma length_sort_js [simp]: "length (sort_js cmp xs) = length xs"
  using mset_sort_js [of cmp xs] by (metis size_mset)

lemma sort_js_Nil [simp]: "sort_js cmp [] = []"
  by (simp add: sort_js_def)

text \<open>Insertion keeps a list in descending order of a key when the comparator is the
  difference of the keys, as \<open>by_date_desc\<close> is on dated records.\<close>

lemma sorted_insert_sorted:
  assumes "\<And>y. y \<in> set ys \<Longrightarrow> cmp x y = Some (key y - key x)"
    and "sorted_wrt (\<lambda>a b. key b \<le> key a) ys"
  shows "sorted_wrt (\<lambda>a b. (key b :: int) \<le> key a) (insert_sorted cmp x ys)"
  using assms
proof (induction ys)
  case Nil
  then show ?case by simp
next
  case (Cons y ys)
  have c: "cmp x y = Some (key y - key x)"
    using Cons.prems(1) by simp
  show ?case
  proof (cases "key y \<le> key x")
    case True
    with c Cons.prems(2) show ?thesis by (auto intro: order_trans)
  next
    case False
    have "set (insert_sorted cmp x ys) = insert x (set ys)"
      using mset_insert_sorted [of cmp x ys] by (metis set_mset_add_mset_insert set_mset_mset)
    with False c Cons show ?thesis by auto
  qed
qed

lemma sorted_sort_js:
  assumes "\<And>x y. x \<in> set xs \<Longrightarrow> y \<in> set xs \<Longrightarrow> cmp x y = Some (key y - key x)"
  shows "sorted_wrt (\<lambda>a b. (key b :: int) \<le> key a) (sort_js cmp xs)"
  using assms
proof (induction xs)
  case Nil
  then show ?case by (simp add: sort_js_def)
next
  case (Cons x xs)
  have ih: "sorted_wrt (\<lambda>a b. key b \<le> key a) (sort_js cmp xs)"
    using Cons by simp
  have "sorted_wrt (\<lambda>a b. key b \<le> key a) (insert_sorted cmp x (sort_js cmp xs))"
    by (rule sorted_insert_sorted [OF _ ih]) (simp add: Cons.prems)
  then show ?case by (simp add: sort_js_def)
qed

text \<open>A record that is earlier than all the others stays at the end.\<close>

lemma last_insert_sorted:
  assumes "ys \<noteq> []" and "cmp x (last ys) = Some d" and "d < 0"
  shows "insert_sorted cmp x ys \<noteq> [] \<and> last (insert_sorted cmp x ys) = last ys"
  using assms by (induction ys) auto

lemma last_foldr_insert_sorted:
  assumes "\<And>x. x \<in> set xs \<Longrightarrow> \<exists>d. cmp x n = Some d \<and> d < 0"
  shows "foldr (insert_sorted cmp) xs [n] \<noteq> [] \<and> last (foldr (insert_sorted cmp) xs [n]) = n"
  using assms
proof (induction xs)
  case Nil
  then show ?case by simp
next
  case (Cons x xs)
  then have ih: "foldr (insert_sorted cmp) xs [n] \<noteq> []"
    "last (foldr (insert_sorted cmp) xs [n]) = n"
    by simp_all
  from Cons.prems obtain d where "cmp x n = Some d" "d < 0" by auto
  with ih show ?case
    using last_insert_sorted [of "foldr (insert_sorted cmp) xs [n]" cmp x d] by simp
qed

lemma last_sort_js_snoc:
  assumes "\<And>x. x \<in> set xs \<Longrightarrow> \<exists>d. cmp x n = Some d \<and> d < 0"
  shows "sort_js cmp (xs @ [n]) \<noteq> [] \<and> last (sort_js cmp (xs @ [n])) = n"
  using last_foldr_insert_sorted [of xs cmp n] assms by (simp add: sort_js_def)

text \<open>Stored interactions: what the filter and the comparator see of them, before and
  after a round through \<^verbatim>\<open>JSON.stringify\<close>.\<close>

lemma not_inherited_clientId_date [simp]:
  "map_of Object_prototype ''clientId'' = None" "map_of Object_prototype ''date'' = None"
  by (simp_all add: Object_prototype_def)

lemma stored_interactionE:
  assumes "stored_interaction x"
  obtains ps c d where "x = JObj ps" "map_of ps ''clientId'' = Some (JStr c)"
    "map_of ps ''date'' = Some (JStr d)"
  using assms
  by (auto simp: stored_interaction_def split: js.splits option.splits)

lemma stored_interaction_reads:
  assumes "stored_interaction x"
  shows "prop_is ''clientId'' clientId x = Inr (for_client clientId x)"
  using assms
  by (auto elim!: stored_interactionE simp: prop_is_def for_client_def member_def)

lemma readable_time: "readable getTime x \<Longrightarrow> getTime (date_of x) = Some (time_of getTime x)"
  by (auto simp: readable_def time_of_def)

lemma stored_interaction_jsonify:
  assumes "stored_interaction x"
  shows "stored_interaction (jsonify x)"
    and "for_client clientId (jsonify x) = for_client clientId x"
    and "date_of (jsonify x) = date_of x"
proof -
  from assms obtain ps c d where x: "x = JObj ps" "map_of ps ''clientId'' = Some (JStr c)"
    "map_of ps ''date'' = Some (JStr d)"
    by (rule stored_interactionE)
  let ?qs = "map (\<lambda>p. (fst p, jsonify (snd p))) (filter (\<lambda>p. \<not> left_out (snd p)) ps)"
  have q: "map_of ?qs ''clientId'' = Some (JStr c)" "map_of ?qs ''date'' = Some (JStr d)"
    using x by (simp_all add: map_of_jsonify_string)
  show "stored_interaction (jsonify x)"
    using x q by (simp add: stored_interaction_def)
  show "for_client clientId (jsonify x) = for_client clientId x"
    using x q by (simp add: for_client_def member_def)
  show "date_of (jsonify x) = date_of x"
    using x q by (simp add: date_of_def member_def)
qed

lemma by_date_desc_readable:
  assumes "readable getTime a" and "readable getTime b"
  shows "by_date_desc getTime a b = Some (time_of getTime b - time_of getTime a)"
  using assms by (simp add: by_date_desc_def readable_time)

lemma getClientInteractions_stored:
  assumes "getAllInteractions w = JArr all"
    and "list_all stored_interaction all"
  shows "getClientInteractions getTime clientId w =
           Inr (sort_js (by_date_desc getTime) (filter (for_client clientId) all))"
proof -
  have "filter_js (prop_is ''clientId'' clientId) all = Inr (filter (for_client clientId) all)"
    using assms(2)
    by (intro filter_js_total) (auto simp: list_all_iff stored_interaction_reads)
  with assms(1) show ?thesis
    by (simp add: getClientInteractions_def)
qed

lemma map_of_object_spread_other:
  "k \<notin> fst ` set us \<Longrightarrow> map_of (object_spread ps us) k = map_of ps k"
proof (induction us arbitrary: ps)
  case Nil
  then show ?case by (simp add: object_spread_def)
next
  case (Cons u us)
  obtain k' v where u: "u = (k', v)" by (cases u)
  have "object_spread ps (u # us) = object_spread (AList.update k' v ps) us"
    by (simp add: object_spread_def u)
  with Cons u show ?case by (auto simp: update_conv')
qed

text \<open>
  C2, as the code has it. When what is stored is a list of interactions, and \<^verbatim>\<open>Date\<close> can
  read the event date of those of the client, \<^verbatim>\<open>getClientInteractions(clientId)\<close> returns
  the stored interactions whose \<^verbatim>\<open>clientId\<close> is the argument, each as often as it is
  stored, in descending order of the event date. And when an interaction for that client is
  added whose event date is strictly earlier than that of every stored one of the client,
  the next call returns a list that ends with it, as it was stored.
\<close>

theorem getClientInteractions_sorted:
  assumes "getAllInteractions w = JArr all"
    and "list_all stored_interaction all"
    and "\<forall>x \<in> set all. for_client clientId x \<longrightarrow> readable getTime x"
  shows "(\<exists>ys. getClientInteractions getTime clientId w = Inr ys \<and>
            mset ys = mset (filter (for_client clientId) all) \<and>
            sorted_wrt (\<lambda>a b. time_of getTime b \<le> time_of getTime a) ys) \<and>
         (map_of interaction ''clientId'' = Some (JStr clientId) \<and>
          map_of interaction ''date'' = Some (JStr d) \<and> getTime (JStr d) = Some t \<and>
          (\<forall>x \<in> set all. for_client clientId x \<longrightarrow> t < time_of getTime x) \<longrightarrow>
          (\<exists>n w' ys. addInteraction now rnd created interaction w = (Inr n, w') \<and>
             getClientInteractions getTime clientId w' = Inr ys \<and>
             ys \<noteq> [] \<and> last ys = jsonify n \<and> for_client clientId n \<and>
             get n ''date'' = Inr (JStr d)))"
proof (intro conjI impI)
  let ?mine = "filter (for_client clientId) all"
  have read: "getClientInteractions getTime clientId w = Inr (sort_js (by_date_desc getTime) ?mine)"
    using assms(1,2) by (rule getClientInteractions_stored)
  have "sorted_wrt (\<lambda>a b. time_of getTime b \<le> time_of getTime a)
          (sort_js (by_date_desc getTime) ?mine)"
    using assms(3)
    by (intro sorted_sort_js) (auto simp: by_date_desc_readable)
  with read
  show "\<exists>ys. getClientInteractions getTime clientId w = Inr ys \<and>
            mset ys = mset ?mine \<and>
            sorted_wrt (\<lambda>a b. time_of getTime b \<le> time_of getTime a) ys"
    by simp
next
  assume new: "map_of interaction ''clientId'' = Some (JStr clientId) \<and>
          map_of interaction ''date'' = Some (JStr d) \<and> getTime (JStr d) = Some t \<and>
          (\<forall>x \<in> set all. for_client clientId x \<longrightarrow> t < time_of getTime x)"
  define n where "n = JObj (object_spread interaction
        [(''id'', JStr (interaction_id now rnd)), (''createdAt'', JStr created)])"
  define w' where "w' = w\<lparr>localStorage := (localStorage w)
        (INTERACTIONS_KEY \<mapsto> JSON_stringify (JArr (all @ [n])))\<rparr>"
  have add: "addInteraction now rnd created interaction w = (Inr n, w')"
    using assms(1) by (simp add: addInteraction_def n_def w'_def Let_def)
  have props: "map_of (object_spread interaction
        [(''id'', JStr (interaction_id now rnd)), (''createdAt'', JStr created)]) ''clientId''
          = Some (JStr clientId)"
      "map_of (object_spread interaction
        [(''id'', JStr (interaction_id now rnd)), (''createdAt'', JStr created)]) ''date''
          = Some (JStr d)"
    using new by (simp_all add: map_of_object_spread_other)
  have n_stored: "stored_interaction n"
    using props by (simp add: n_def stored_interaction_def)
  have n_client: "for_client clientId n"
    using props by (simp add: n_def for_client_def member_def)
  have n_date: "get n ''date'' = Inr (JStr d)"
    using props by (simp add: n_def member_def)
  have "date_of n = JStr d"
    using n_date by (simp add: date_of_def)
  with new n_stored have n_time: "getTime (date_of (jsonify n)) = Some t"
    by (simp add: stored_interaction_jsonify(3))
  have all': "getAllInteractions w' = JArr (map jsonify all @ [jsonify n])"
    by (simp add: getAllInteractions_def w'_def JSON_stringify_def)
  have stored': "list_all stored_interaction (map jsonify all @ [jsonify n])"
    using assms(2) n_stored by (simp add: list_all_iff stored_interaction_jsonify(1))
  have mine': "filter (for_client clientId) (map jsonify all @ [jsonify n])
        = filter (for_client clientId) (map jsonify all) @ [jsonify n]"
    using n_client n_stored by (simp add: stored_interaction_jsonify(2))
  have read': "getClientInteractions getTime clientId w' =
      Inr (sort_js (by_date_desc getTime)
            (filter (for_client clientId) (map jsonify all) @ [jsonify n]))"
    using getClientInteractions_stored [OF all' stored', of getTime clientId] mine' by simp
  have earlier: "\<exists>e. by_date_desc getTime x (jsonify n) = Some e \<and> e < 0"
    if "x \<in> set (filter (for_client clientId) (map jsonify all))" for x
  proof -
    from that obtain y where y: "y \<in> set all" "x = jsonify y" "for_client clientId (jsonify y)"
      by auto
    with assms(2) have sy: "stored_interaction y"
      by (simp add: list_all_iff)
    with y have cy: "for_client clientId y"
      by (simp add: stored_interaction_jsonify(2))
    with new y have late: "t < time_of getTime y" by simp
    from cy y assms(3) have "readable getTime y" by simp
    then have "getTime (date_of x) = Some (time_of getTime y)"
      using sy y by (simp add: stored_interaction_jsonify(3) readable_time)
    with n_time late show ?thesis
      by (simp add: by_date_desc_def)
  qed
  have "sort_js (by_date_desc getTime)
          (filter (for_client clientId) (map jsonify all) @ [jsonify n]) \<noteq> [] \<and>
        last (sort_js (by_date_desc getTime)
          (filter (for_client clientId) (map jsonify all) @ [jsonify n])) = jsonify n"
    by (rule last_sort_js_snoc) (rule earlier)
  with add read' n_client n_date
  show "\<exists>n w' ys. addInteraction now rnd created interaction w = (Inr n, w') \<and>
             getClientInteractions getTime clientId w' = Inr ys \<and>
             ys \<noteq> [] \<and> last ys = jsonify n \<and> for_client clientId n \<and>
             get n ''date'' = Inr (JStr d)"
    by blast
qed

lemmas getTime_ymd_eval =
  getTime_ymd_def is_digit_def digits_value_def days_in_month_def days_from_civil_def

lemma history_times:
  "getTime_ymd (date_of note_a) = Some 1729382400000"
  "getTime_ymd (date_of note_b) = Some 1731628800000"
  "getTime_ymd (JStr ''2024-09-05'') = Some 1725494400000"
  by (simp_all add: date_of_def member_def note_a_def note_b_def getTime_ymd_eval)

lemma history_stored:
  "stored_interaction note_a" "stored_interaction note_b" "stored_interaction note_c"
  by (simp_all add: stored_interaction_def note_a_def note_b_def note_c_def)

lemma history_clients:
  "for_client ''client-001'' note_a" "for_client ''client-001'' note_b"
  "\<not> for_client ''client-001'' note_c"
  by (simp_all add: for_client_def member_def note_a_def note_b_def note_c_def)

theorem getClientInteractions_sorted_witness:
  "getAllInteractions history_world = JArr [note_a, note_b, note_c] \<and>
   list_all stored_interaction [note_a, note_b, note_c] \<and>
   for_client ''client-001'' note_a \<and> readable getTime_ymd note_a \<and>
   for_client ''client-001'' note_b \<and> readable getTime_ymd note_b \<and>
   \<not> for_client ''client-001'' note_c \<and>
   getClientInteractions getTime_ymd ''client-001'' history_world = Inr [note_b, note_a] \<and>
   map_of earlier_note ''clientId'' = Some (JStr ''client-001'') \<and>
   map_of earlier_note ''date'' = Some (JStr ''2024-09-05'') \<and>
   getTime_ymd (JStr ''2024-09-05'') = Some 1725494400000 \<and>
   1725494400000 < time_of getTime_ymd note_a \<and>
   1725494400000 < time_of getTime_ymd note_b \<and>
   (\<exists>n w' ys.
       addInteraction 1700000000003 ''ddddddddd'' ''2023-11-14T22:13:20.003Z'' earlier_note
         history_world = (Inr n, w') \<and>
       getClientInteractions getTime_ymd ''client-001'' w' = Inr ys \<and>
       ys \<noteq> [] \<and> last ys = jsonify n \<and> for_client ''client-001'' n \<and>
       get n ''date'' = Inr (JStr ''2024-09-05''))"
proof -
  have all: "getAllInteractions history_world = JArr [note_a, note_b, note_c]"
    by (simp add: getAllInteractions_def history_world_def)
  have stored: "list_all stored_interaction [note_a, note_b, note_c]"
    by (simp add: history_stored)
  have readable: "readable getTime_ymd note_a" "readable getTime_ymd note_b"
    by (simp_all add: readable_def history_times)
  then have dated: "\<forall>x \<in> set [note_a, note_b, note_c].
       for_client ''client-001'' x \<longrightarrow> readable getTime_ymd x"
    by (simp add: history_clients)
  have new: "map_of earlier_note ''clientId'' = Some (JStr ''client-001'')"
    "map_of earlier_note ''date'' = Some (JStr ''2024-09-05'')"
    by (simp_all add: earlier_note_def)
  have later: "1725494400000 < time_of getTime_ymd note_a"
    "1725494400000 < time_of getTime_ymd note_b"
    by (simp_all add: history_times time_of_def)
  then have earlier: "\<forall>x \<in> set [note_a, note_b, note_c].
       for_client ''client-001'' x \<longrightarrow> 1725494400000 < time_of getTime_ymd x"
    by (simp add: history_clients)
  note inst = getClientInteractions_sorted [OF all stored dated, of earlier_note
      "''2024-09-05''" 1725494400000 1700000000003 "''ddddddddd''" "''2023-11-14T22:13:20.003Z''"]
  have sorted: "getClientInteractions getTime_ymd ''client-001'' history_world
      = Inr [note_b, note_a]"
    using getClientInteractions_stored [OF all stored, of getTime_ymd "''client-001''"]
    by (simp add: history_clients sort_js_def by_date_desc_def history_times)
  show ?thesis
    using inst all stored readable new earlier later sorted history_times(3) history_clients
    by blast
qed

text \<open>
  C2 as stated fails when a stored interaction of the client has a date that \<^verbatim>\<open>Date\<close>
  cannot read, such as the empty string that the form's date field gives when it is
  cleared. The comparator is then \<^verbatim>\<open>NaN\<close> against that record, which the sort reads as
  "equal", and the records around it are never compared with each other: the three come
  back in stored order, January before June.
\<close>

theorem getClientInteractions_sorted_counterexample:
  "getClientInteractions getTime_ymd ''client-001'' undated_world
     = Inr [january, undated, june] \<and>
   time_of getTime_ymd january < time_of getTime_ymd june"
  by (simp add: getClientInteractions_def getAllInteractions_def undated_world_def
      january_def undated_def june_def prop_is_def member_def sort_js_def by_date_desc_def
      date_of_def time_of_def getTime_ymd_eval)

subsection \<open>Seeding the Interaction Store\<close>

text \<open>What holds of the seeding at the two built-in clients: it writes interactions of the
  client it was called for, so a second call finds them and writes nothing.\<close>

lemma addInteraction_stored:
  assumes "getAllInteractions w = JArr all"
    and "list_all stored_interaction all"
    and "map_of x ''clientId'' = Some (JStr c)"
    and "map_of x ''date'' = Some (JStr d)"
  shows "\<exists>i w' all'. addInteraction now rnd created x w = (Inr i, w') \<and>
           getAllInteractions w' = JArr all' \<and> list_all stored_interaction all' \<and>
           (\<exists>y \<in> set all'. for_client c y)"
proof -
  define i where "i = JObj (object_spread x
        [(''id'', JStr (interaction_id now rnd)), (''createdAt'', JStr created)])"
  define w' where "w' = w\<lparr>localStorage := (localStorage w)
        (INTERACTIONS_KEY \<mapsto> JSON_stringify (JArr (all @ [i])))\<rparr>"
  have add: "addInteraction now rnd created x w = (Inr i, w')"
    using assms(1) by (simp add: addInteraction_def i_def w'_def Let_def)
  have props: "map_of (object_spread x
        [(''id'', JStr (interaction_id now rnd)), (''createdAt'', JStr created)]) ''clientId''
          = Some (JStr c)"
      "map_of (object_spread x
        [(''id'', JStr (interaction_id now rnd)), (''createdAt'', JStr created)]) ''date''
          = Some (JStr d)"
    using assms(3,4) by (simp_all add: map_of_object_spread_other)
  have i_stored: "stored_interaction i"
    using props by (simp add: i_def stored_interaction_def)
  have i_client: "for_client c i"
    using props by (simp add: i_def for_client_def member_def)
  have all': "getAllInteractions w' = JArr (map jsonify all @ [jsonify i])"
    by (simp add: getAllInteractions_def w'_def JSON_stringify_def)
  have "list_all stored_interaction (map jsonify all @ [jsonify i])"
    using assms(2) i_stored by (simp add: list_all_iff stored_interaction_jsonify(1))
  moreover have "for_client c (jsonify i)"
    using i_stored i_client by (simp add: stored_interaction_jsonify(2))
  ultimately show ?thesis
    using add all' by auto
qed

lemma add_each_stored:
  assumes "getAllInteractions w = JArr all"
    and "list_all stored_interaction all"
    and "\<forall>x \<in> set xs. map_of x ''clientId'' = Some (JStr c) \<and>
           (\<exists>d. map_of x ''date'' = Some (JStr d))"
    and "xs = [] \<longrightarrow> (\<exists>y \<in> set all. for_client c y)"
  shows "\<exists>w' all'. add_each stamps n xs w = (Inr (), w') \<and>
           getAllInteractions w' = JArr all' \<and> list_all stored_interaction all' \<and>
           (\<exists>y \<in> set all'. for_client c y)"
  using assms
proof (induction xs arbitrary: w all n)
  case Nil
  then show ?case by auto
next
  case (Cons x xs)
  obtain now rnd created where st: "stamps n = (now, rnd, created)"
    by (cases "stamps n")
  from Cons.prems(3) obtain d where x: "map_of x ''clientId'' = Some (JStr c)"
    "map_of x ''date'' = Some (JStr d)"
    by auto
  from addInteraction_stored [OF Cons.prems(1,2) x, of now rnd created]
  obtain i w1 all1 where one: "addInteraction now rnd created x w = (Inr i, w1)"
    "getAllInteractions w1 = JArr all1" "list_all stored_interaction all1"
    "\<exists>y \<in> set all1. for_client c y"
    by blast
  have "\<exists>w' all'. add_each stamps (Suc n) xs w1 = (Inr (), w') \<and>
           getAllInteractions w' = JArr all' \<and> list_all stored_interaction all' \<and>
           (\<exists>y \<in> set all'. for_client c y)"
    using Cons.prems(3) one(4) by (intro Cons.IH [OF one(2,3)]) auto
  with st one(1) show ?case by simp
qed

lemma samples_of_client:
  "\<forall>x \<in> set samples_001. map_of x ''clientId'' = Some (JStr ''client-001'') \<and>
       (\<exists>d. map_of x ''date'' = Some (JStr d))"
  "\<forall>x \<in> set samples_002. map_of x ''clientId'' = Some (JStr ''client-002'') \<and>
       (\<exists>d. map_of x ''date'' = Some (JStr d))"
  by (simp_all add: samples_001_def samples_002_def)

lemma seeding_idempotent_at_builtin:
  assumes "clientId = ''client-001'' \<or> clientId = ''client-002''"
    and "getAllInteractions w = JArr all"
    and "list_all stored_interaction all"
  shows "\<exists>w'. initializeSampleInteractions getTime stamps clientId w = (Inr (), w') \<and>
           initializeSampleInteractions getTime stamps' clientId w' = (Inr (), w')"
proof (cases "filter (for_client clientId) all = []")
  case False
  then have "initializeSampleInteractions getTime stamps clientId w = (Inr (), w)" for stamps
    using getClientInteractions_stored [OF assms(2,3), of getTime clientId]
    by (simp add: initializeSampleInteractions_def)
  then show ?thesis by simp
next
  case True
  let ?samples = "if clientId = ''client-001'' then samples_001 else samples_002"
  have first: "initializeSampleInteractions getTime stamps clientId w
      = add_each stamps 0 ?samples w"
    using True getClientInteractions_stored [OF assms(2,3), of getTime clientId]
    by (simp add: initializeSampleInteractions_def)
  have of_client: "\<forall>x \<in> set ?samples. map_of x ''clientId'' = Some (JStr clientId) \<and>
       (\<exists>d. map_of x ''date'' = Some (JStr d))"
    using assms(1) samples_of_client by auto
  have "?samples \<noteq> []"
    by (simp add: samples_001_def samples_002_def)
  with add_each_stored [OF assms(2,3) of_client, of stamps 0]
  obtain w' all' where seeded: "add_each stamps 0 ?samples w = (Inr (), w')"
    "getAllInteractions w' = JArr all'" "list_all stored_interaction all'"
    "\<exists>y \<in> set all'. for_client clientId y"
    by auto
  from seeded(4) have "filter (for_client clientId) all' \<noteq> []"
    by (auto simp: filter_empty_conv)
  then have "initializeSampleInteractions getTime stamps' clientId w' = (Inr (), w')"
    using getClientInteractions_stored [OF seeded(2,3), of getTime clientId]
    by (simp add: initializeSampleInteractions_def)
  with first seeded(1) show ?thesis by simp
qed

lemma first_stamps_decimal:
  "decimal 1700000000000 = ''1700000000000''"
  "decimal 1700000000001 = ''1700000000001''"
  "decimal 1700000000002 = ''1700000000002''"
  by (simp_all add: decimal.simps digit_char_def)

lemma second_stamps_decimal:
  "decimal 1700000005000 = ''1700000005000''"
  "decimal 1700000005001 = ''1700000005001''"
  "decimal 1700000005002 = ''1700000005002''"
  by (simp_all add: decimal.simps digit_char_def)

lemmas seed_eval =
  initializeSampleInteractions_def getClientInteractions_def getAllInteractions_def
  addInteraction_def interaction_id_def object_spread_def JSON_stringify_def prop_is_def
  member_def samples_001_def samples_002_def INTERACTIONS_KEY_def Object_prototype_def
  sort_js_def Let_def

lemma selected_once_eq:
  "selected_once =
     \<lparr>builtin = mockClients,
      localStorage = [INTERACTIONS_KEY \<mapsto> Json (JArr
       (map (\<lambda>(n, x). JObj (x @ [(''id'', JStr (''interaction-170000000000'' @ n @ ''-aaaaaaaaa'')),
                                    (''createdAt'', JStr ''2023-11-14T22:13:20.000Z'')]))
          (zip [''0'', ''1'', ''2''] samples_002)))]\<rparr>"
  by (simp add: selected_once_def fresh_world_def first_stamps_def first_stamps_decimal seed_eval)

lemma selected_twice_eq:
  "selected_twice =
     \<lparr>builtin = mockClients,
      localStorage = [INTERACTIONS_KEY \<mapsto> Json (JArr
       (map (\<lambda>(n, x). JObj (x @ [(''id'', JStr (''interaction-170000000000'' @ n @ ''-aaaaaaaaa'')),
                                    (''createdAt'', JStr ''2023-11-14T22:13:20.000Z'')]))
          (zip [''0'', ''1'', ''2''] samples_002) @
        map (\<lambda>(n, x). JObj (x @ [(''id'', JStr (''interaction-170000000500'' @ n @ ''-bbbbbbbbb'')),
                                    (''createdAt'', JStr ''2023-11-14T22:13:25.000Z'')]))
          (zip [''0'', ''1'', ''2''] samples_002)))]\<rparr>"
  by (simp add: selected_twice_def selected_once_eq second_stamps_def second_stamps_decimal
      seed_eval)

text \<open>
  C3 at a custom client. \<^verbatim>\<open>initializeSampleInteractions\<close> chooses between its two sample
  lists by \<^verbatim>\<open>clientId === 'client-001'\<close>, so every other id, a custom client's too, gets
  the list of \<^verbatim>\<open>client-002\<close> written, under the client id \<^verbatim>\<open>client-002\<close>. The custom client
  still has no interaction afterwards, so the next call writes the three again: after two
  calls six are stored.
\<close>

theorem seeding_custom_client_doubles:
  "titles (getAllInteractions fresh_world) = [] \<and>
   titles (getAllInteractions selected_once) =
     [JStr ''Year-End Planning Session'', JStr ''Trust Document Update'',
      JStr ''Mid-Year Review''] \<and>
   titles (getAllInteractions selected_twice) =
     [JStr ''Year-End Planning Session'', JStr ''Trust Document Update'',
      JStr ''Mid-Year Review'', JStr ''Year-End Planning Session'',
      JStr ''Trust Document Update'', JStr ''Mid-Year Review''] \<and>
   getClientInteractions getTime_ymd ''client-custom-1'' selected_twice = Inr [] \<and>
   map_sum id length (getClientInteractions getTime_ymd ''client-002'' selected_twice) = Inr 6"
  by (simp add: selected_twice_eq selected_once_eq fresh_world_def titles_def
      getClientInteractions_def getAllInteractions_def prop_is_def member_def samples_002_def
      Object_prototype_def)

subsection \<open>The free-text record parser\<close>

text \<open>What holds of the line format (C5): the defaults of a missing or empty field, and the
  synonym table.\<close>

lemma or_default_simps [simp]:
  "or_default None d = d" "or_default (Some []) d = d" "s \<noteq> [] \<Longrightarrow> or_default (Some s) d = s"
  by (simp_all add: or_default_def)

lemma parseFloat_zero [simp]: "parseFloat ''0'' = Num 0"
  by (simp add: parseFloat_def is_digit_def digits_value_def)

lemma amount_missing_is_zero:
  "amount None = Num 0"
  "strip_non_numeric s = [] \<Longrightarrow> amount (Some s) = Num 0"
  by (simp_all add: amount_def)

lemma strip_non_numeric_chars:
  "c \<in> set (strip_non_numeric s) \<Longrightarrow> is_digit c \<or> c = CHR ''.''"
  by (auto simp: strip_non_numeric_def)

text \<open>The numeric field is not a number exactly when what is left of it begins with a
  point that no digit follows.\<close>

lemma amount_NaN_iff:
  "amount (Some s) = NaN \<longleftrightarrow>
     (\<exists>r. strip_non_numeric s = CHR ''.'' # r \<and> (r = [] \<or> \<not> is_digit (hd r)))"
proof (cases "strip_non_numeric s")
  case Nil
  then show ?thesis by (simp add: amount_def)
next
  case (Cons c r)
  then have c: "is_digit c \<or> c = CHR ''.''"
    using strip_non_numeric_chars [of c s] by simp
  have point: "\<not> is_digit CHR ''.''"
    by (simp add: is_digit_def)
  show ?thesis
  proof (cases "is_digit c")
    case True
    with Cons point show ?thesis
      by (auto simp: amount_def parseFloat_def Let_def)
  next
    case False
    with c have "c = CHR ''.''" by simp
    with Cons point show ?thesis
      by (cases r) (auto simp: amount_def parseFloat_def Let_def)
  qed
qed

lemma typeMap_synonyms:
  "member typeMap ''401(k)'' = JStr ''401k''" "member typeMap ''401k'' = JStr ''401k''"
  "member typeMap ''roth'' = JStr ''Roth IRA''" "member typeMap ''roth ira'' = JStr ''Roth IRA''"
  "member typeMap ''ira'' = JStr ''IRA''" "member typeMap ''traditional ira'' = JStr ''IRA''"
  "member typeMap ''brokerage'' = JStr ''Brokerage''" "member typeMap ''trust'' = JStr ''Trust''"
  by (simp_all add: member_def typeMap_def)

lemma typeMap_unrecognized:
  "k \<notin> fst ` set typeMap \<Longrightarrow> k \<notin> fst ` set Object_prototype \<Longrightarrow> falsy (member typeMap k)"
  by (simp add: member_def map_of_eq_None_iff [THEN iffD2])

lemma line_examples:
  "goal_of_line (now, rnd, today) ''Retirement | 3000000 | 2100000 | 2030-01-01'' =
     createGoal now rnd (JStr ''Retirement'') (JNum (Num 3000000)) (JNum (Num 2100000))
       (JStr ''2030-01-01'')"
  "account_of_line (now, rnd, today) ''My 401k | 401(k) | 50000'' =
     createAccount now rnd (JStr ''My 401k'') (JStr ''401k'') (JNum (Num 50000))"
  "account_of_line (now, rnd, today) ''Misc | unknown-type | 10'' =
     createAccount now rnd (JStr ''Misc'') (JStr ''Brokerage'') (JNum (Num 10))"
  "goal_of_line (now, rnd, today) '' | $1,000.50'' =
     createGoal now rnd (JStr ''Goal'') (JNum (Num (2001 / 2))) (JNum (Num 0)) (JStr today)"
  by (simp_all add: goal_of_line_def account_of_line_def trim_def is_space_def field_def
      amount_def strip_non_numeric_def parseFloat_def is_digit_def digits_value_def
      toLowerCase_def lower_char_def member_def typeMap_def Object_prototype_def or_default_def)

text \<open>
  C5 at a numeric field that holds points and no digit, such as \<^verbatim>\<open>t.b.d.\<close>, and at the
  account type \<^verbatim>\<open>constructor\<close>. The default \<^verbatim>\<open>'0'\<close> replaces an empty string before
  \<^verbatim>\<open>parseFloat\<close>, not a failure of \<^verbatim>\<open>parseFloat\<close>: of \<^verbatim>\<open>t.b.d.\<close> the \<^verbatim>\<open>replace\<close> leaves
  \<^verbatim>\<open>...\<close>, and the amount is \<^verbatim>\<open>NaN\<close>. And \<^verbatim>\<open>typeMap\<close> is an object literal, which answers
  \<^verbatim>\<open>typeMap['constructor']\<close> with the inherited function \<^verbatim>\<open>Object\<close>: the type of the account
  is then that function, not \<^verbatim>\<open>'Brokerage'\<close>.
\<close>

theorem line_parser_slips:
  "goal_of_line (now, rnd, today) ''Vacation Home | t.b.d. | 95000'' =
     createGoal now rnd (JStr ''Vacation Home'') (JNum NaN) (JNum (Num 95000)) (JStr today) \<and>
   goal_of_line (now, rnd, today) ''Goal | . | 1'' =
     createGoal now rnd (JStr ''Goal'') (JNum NaN) (JNum (Num 1)) (JStr today) \<and>
   account_of_line (now, rnd, today) ''Misc | constructor | 10'' =
     createAccount now rnd (JStr ''Misc'') (Native ''Object'') (JNum (Num 10))"
  by (simp add: goal_of_line_def account_of_line_def trim_def is_space_def field_def
      amount_def strip_non_numeric_def parseFloat_def is_digit_def digits_value_def
      toLowerCase_def lower_char_def member_def typeMap_def Object_prototype_def or_default_def)

text \<open>The JSON branch on an array of objects: one record an element, no exception.\<close>

lemma read_createGoal [simp]:
  "read (createGoal now rnd n t c d) ''id'' = JStr (goal_id now rnd)"
  "read (createGoal now rnd n t c d) ''name'' = n"
  "read (createGoal now rnd n t c d) ''targetAmount'' = t"
  "read (createGoal now rnd n t c d) ''currentAmount'' = c"
  "read (createGoal now rnd n t c d) ''targetDate'' = d"
  by (simp_all add: read_def createGoal_def member_def)

lemma read_createAccount [simp]:
  "read (createAccount now rnd n t b) ''id'' = JStr (account_id now rnd)"
  "read (createAccount now rnd n t b) ''name'' = n"
  "read (createAccount now rnd n t b) ''type'' = t"
  "read (createAccount now rnd n t b) ''balance'' = b"
  by (simp_all add: read_def createAccount_def member_def)

lemma goal_of_json_object:
  "is_object g \<Longrightarrow>
   goal_of_json (now, rnd, today) g =
     Inr (createGoal now rnd (read g ''name'') (read g ''targetAmount'')
            (read g ''currentAmount'') (read g ''targetDate''))"
  by (cases g) (simp_all add: goal_of_json_def read_def)

lemma account_of_json_object:
  "is_object a \<Longrightarrow>
   account_of_json (now, rnd, today) a =
     Inr (createAccount now rnd (read a ''name'') (read a ''type'') (read a ''balance''))"
  by (cases a) (simp_all add: account_of_json_def read_def)

lemma map_records_total:
  assumes "\<And>k x. x \<in> set xs \<Longrightarrow> f (stamps k) x = Inr (g (stamps k) x)"
  shows "map_records stamps f k xs = Inr (map (\<lambda>(n, x). g (stamps n) x) (enumerate k xs))"
  using assms by (induction xs arbitrary: k) auto

lemma parseGoals_json:
  assumes "trim text \<noteq> []" and "parse text = Some (JArr gs)" and "list_all is_object gs"
  shows "parseGoals parse stamps text =
     map (\<lambda>(n, g). case stamps n of (now, rnd, today) \<Rightarrow>
            createGoal now rnd (read g ''name'') (read g ''targetAmount'')
              (read g ''currentAmount'') (read g ''targetDate''))
       (enumerate 0 gs)"
proof -
  have "map_records stamps goal_of_json 0 gs =
      Inr (map (\<lambda>(n, g). case stamps n of (now, rnd, today) \<Rightarrow>
            createGoal now rnd (read g ''name'') (read g ''targetAmount'')
              (read g ''currentAmount'') (read g ''targetDate''))
       (enumerate 0 gs))"
  proof (rule map_records_total)
    fix k x
    assume "x \<in> set gs"
    with assms(3) have "is_object x" by (simp add: list_all_iff)
    then show "goal_of_json (stamps k) x =
        Inr (case stamps k of (now, rnd, today) \<Rightarrow>
            createGoal now rnd (read x ''name'') (read x ''targetAmount'')
              (read x ''currentAmount'') (read x ''targetDate''))"
      by (cases "stamps k") (simp add: goal_of_json_object)
  qed
  with assms(1,2) show ?thesis
    by (simp add: parseGoals_def)
qed

lemma parseAccounts_json:
  assumes "trim text \<noteq> []" and "parse text = Some (JArr as)" and "list_all is_object as"
  shows "parseAccounts parse stamps text =
     map (\<lambda>(n, a). case stamps n of (now, rnd, today) \<Rightarrow>
            createAccount now rnd (read a ''name'') (read a ''type'') (read a ''balance''))
       (enumerate 0 as)"
proof -
  have "map_records stamps account_of_json 0 as =
      Inr (map (\<lambda>(n, a). case stamps n of (now, rnd, today) \<Rightarrow>
            createAccount now rnd (read a ''name'') (read a ''type'') (read a ''balance''))
       (enumerate 0 as))"
  proof (rule map_records_total)
    fix k x
    assume "x \<in> set as"
    with assms(3) have "is_object x" by (simp add: list_all_iff)
    then show "account_of_json (stamps k) x =
        Inr (case stamps k of (now, rnd, today) \<Rightarrow>
            createAccount now rnd (read x ''name'') (read x ''type'') (read x ''balance''))"
      by (cases "stamps k") (simp add: account_of_json_object)
  qed
  with assms(1,2) show ?thesis
    by (simp add: parseAccounts_def)
qed

text \<open>
  C9, as the code has it. Let a text be the JSON text of an array of objects, as
  \<^verbatim>\<open>JSON.stringify\<close> writes for a list of Goals or of Accounts. The parser returns one
  record for each element, in order, with the element's \<^verbatim>\<open>name\<close>, \<^verbatim>\<open>targetAmount\<close>,
  \<^verbatim>\<open>currentAmount\<close> and \<^verbatim>\<open>targetDate\<close> (for an account: \<^verbatim>\<open>name\<close>, \<^verbatim>\<open>type\<close> and
  \<^verbatim>\<open>balance\<close>) as the text has them. The \<^verbatim>\<open>id\<close> is not read from the text: every record
  gets a new one from \<^verbatim>\<open>createGoal\<close> or \<^verbatim>\<open>createAccount\<close>.
\<close>

theorem json_round_trip_keeps_fields:
  "(trim gtext \<noteq> [] \<and> parse gtext = Some (JArr gs) \<and> list_all is_object gs \<longrightarrow>
      length (parseGoals parse stamps gtext) = length gs \<and>
      (\<forall>k < length gs.
         read (parseGoals parse stamps gtext ! k) ''name'' = read (gs ! k) ''name'' \<and>
         read (parseGoals parse stamps gtext ! k) ''targetAmount'' = read (gs ! k) ''targetAmount'' \<and>
         read (parseGoals parse stamps gtext ! k) ''currentAmount'' = read (gs ! k) ''currentAmount'' \<and>
         read (parseGoals parse stamps gtext ! k) ''targetDate'' = read (gs ! k) ''targetDate'' \<and>
         read (parseGoals parse stamps gtext ! k) ''id'' =
           JStr (goal_id (fst (stamps k)) (fst (snd (stamps k)))))) \<and>
   (trim atext \<noteq> [] \<and> parse atext = Some (JArr as) \<and> list_all is_object as \<longrightarrow>
      length (parseAccounts parse stamps atext) = length as \<and>
      (\<forall>k < length as.
         read (parseAccounts parse stamps atext ! k) ''name'' = read (as ! k) ''name'' \<and>
         read (parseAccounts parse stamps atext ! k) ''type'' = read (as ! k) ''type'' \<and>
         read (parseAccounts parse stamps atext ! k) ''balance'' = read (as ! k) ''balance'' \<and>
         read (parseAccounts parse stamps atext ! k) ''id'' =
           JStr (account_id (fst (stamps k)) (fst (snd (stamps k))))))"
proof (intro conjI impI)
  assume "trim gtext \<noteq> [] \<and> parse gtext = Some (JArr gs) \<and> list_all is_object gs"
  then have eq: "parseGoals parse stamps gtext =
     map (\<lambda>(n, g). case stamps n of (now, rnd, today) \<Rightarrow>
            createGoal now rnd (read g ''name'') (read g ''targetAmount'')
              (read g ''currentAmount'') (read g ''targetDate''))
       (enumerate 0 gs)"
    by (intro parseGoals_json) simp_all
  show "length (parseGoals parse stamps gtext) = length gs"
    by (simp add: eq)
  show "\<forall>k < length gs.
         read (parseGoals parse stamps gtext ! k) ''name'' = read (gs ! k) ''name'' \<and>
         read (parseGoals parse stamps gtext ! k) ''targetAmount'' = read (gs ! k) ''targetAmount'' \<and>
         read (parseGoals parse stamps gtext ! k) ''currentAmount'' = read (gs ! k) ''currentAmount'' \<and>
         read (parseGoals parse stamps gtext ! k) ''targetDate'' = read (gs ! k) ''targetDate'' \<and>
         read (parseGoals parse stamps gtext ! k) ''id'' =
           JStr (goal_id (fst (stamps k)) (fst (snd (stamps k))))"
    by (simp add: eq nth_enumerate_eq split: prod.splits)
next
  assume "trim atext \<noteq> [] \<and> parse atext = Some (JArr as) \<and> list_all is_object as"
  then have eq: "parseAccounts parse stamps atext =
     map (\<lambda>(n, a). case stamps n of (now, rnd, today) \<Rightarrow>
            createAccount now rnd (read a ''name'') (read a ''type'') (read a ''balance''))
       (enumerate 0 as)"
    by (intro parseAccounts_json) simp_all
  show "length (parseAccounts parse stamps atext) = length as"
    by (simp add: eq)
  show "\<forall>k < length as.
         read (parseAccounts parse stamps atext ! k) ''name'' = read (as ! k) ''name'' \<and>
         read (parseAccounts parse stamps atext ! k) ''type'' = read (as ! k) ''type'' \<and>
         read (parseAccounts parse stamps atext ! k) ''balance'' = read (as ! k) ''balance'' \<and>
         read (parseAccounts parse stamps atext ! k) ''id'' =
           JStr (account_id (fst (stamps k)) (fst (snd (stamps k))))"
    by (simp add: eq nth_enumerate_eq split: prod.splits)
qed

lemma form_stamps_0:
  "form_stamps 0 = (1700000000000, ''aaaaaaaaa'', ''2025-01-01'')"
  by (simp add: form_stamps_def)

lemma round_trip_inputs:
  "trim goals_text \<noteq> []" "trim accounts_text \<noteq> []"
  "list_all is_object [retirement_goal]" "list_all is_object [ira_account]"
  by (simp_all add: trim_def is_space_def goals_text_def accounts_text_def
      retirement_goal_def ira_account_def)

theorem json_round_trip_keeps_fields_witness:
  "trim goals_text \<noteq> [] \<and>
   parse_known goals_text (JArr [retirement_goal]) goals_text = Some (JArr [retirement_goal]) \<and>
   list_all is_object [retirement_goal] \<and>
   read (parseGoals (parse_known goals_text (JArr [retirement_goal])) form_stamps goals_text ! 0)
     ''name'' = JStr ''Retirement at 62'' \<and>
   read (parseGoals (parse_known goals_text (JArr [retirement_goal])) form_stamps goals_text ! 0)
     ''id'' = JStr ''goal-1700000000000-aaaaaaaaa'' \<and>
   trim accounts_text \<noteq> [] \<and>
   parse_known accounts_text (JArr [ira_account]) accounts_text = Some (JArr [ira_account]) \<and>
   list_all is_object [ira_account] \<and>
   read (parseAccounts (parse_known accounts_text (JArr [ira_account])) form_stamps
           accounts_text ! 0) ''type'' = JStr ''IRA'' \<and>
   read (parseAccounts (parse_known accounts_text (JArr [ira_account])) form_stamps
           accounts_text ! 0) ''id'' = JStr ''acc-1700000000000-aaaaaaaaa''"
proof -
  have known: "parse_known goals_text (JArr [retirement_goal]) goals_text
      = Some (JArr [retirement_goal])"
    "parse_known accounts_text (JArr [ira_account]) accounts_text = Some (JArr [ira_account])"
    by (simp_all add: parse_known_def)
  have fields: "read retirement_goal ''name'' = JStr ''Retirement at 62''"
    "read ira_account ''type'' = JStr ''IRA''"
    by (simp_all add: read_def member_def retirement_goal_def ira_account_def)
  have ids: "goal_id 1700000000000 ''aaaaaaaaa'' = ''goal-1700000000000-aaaaaaaaa''"
    "account_id 1700000000000 ''aaaaaaaaa'' = ''acc-1700000000000-aaaaaaaaa''"
    by (simp_all add: goal_id_def account_id_def decimal_example)
  show ?thesis
    using json_round_trip_keeps_fields [of goals_text "parse_known goals_text (JArr [retirement_goal])"
        "[retirement_goal]" form_stamps "[]" "[]"]
      json_round_trip_keeps_fields [of "[]" "parse_known accounts_text (JArr [ira_account])"
        "[]" form_stamps accounts_text "[ira_account]"]
      round_trip_inputs known fields ids form_stamps_0
    by simp
qed

text \<open>
  C9 as stated fails on the \<^verbatim>\<open>id\<close>: the goal \<^verbatim>\<open>goal-001\<close> of the first built-in client,
  parsed from the text that \<^verbatim>\<open>JSON.stringify\<close> writes for the list that holds it, comes
  back under a new id.
\<close>

theorem json_round_trip_keeps_fields_counterexample:
  "parseGoals (parse_known goals_text (JArr [retirement_goal])) form_stamps goals_text =
     [JObj [(''id'', JStr ''goal-1700000000000-aaaaaaaaa''), (''name'', JStr ''Retirement at 62''),
            (''targetAmount'', JNum (Num 3000000)), (''currentAmount'', JNum (Num 2100000)),
            (''targetDate'', JStr ''2029-06-01'')]] \<and>
   parseGoals (parse_known goals_text (JArr [retirement_goal])) form_stamps goals_text
     \<noteq> [retirement_goal]"
proof -
  have "parseGoals (parse_known goals_text (JArr [retirement_goal])) form_stamps goals_text =
     [createGoal 1700000000000 ''aaaaaaaaa'' (read retirement_goal ''name'')
        (read retirement_goal ''targetAmount'') (read retirement_goal ''currentAmount'')
        (read retirement_goal ''targetDate'')]"
    using parseGoals_json [of goals_text "parse_known goals_text (JArr [retirement_goal])"
        "[retirement_goal]" form_stamps] round_trip_inputs
    by (simp add: parse_known_def form_stamps_0)
  then show ?thesis
    by (simp add: createGoal_def goal_id_def decimal_example read_def member_def
        retirement_goal_def)
qed

subsection \<open>The mock CRM service\<close>






text \<open>The ids the program makes, \<^verbatim>\<open>client-...\<close> for the built-in clients and
  \<^verbatim>\<open>custom-...\<close> from \<^verbatim>\<open>addClient\<close>, are not names of members of \<^verbatim>\<open>Object.prototype\<close>.\<close>

lemma program_ids_not_inherited:
  assumes "prefix ''client-'' clientId \<or> prefix ''custom-'' clientId"
  shows "clientId \<notin> fst ` set Object_prototype"
  using assms by (auto simp: Object_prototype_def prefix_def)




subsection \<open>The AI adapter\<close>

text \<open>
  C7. Without an API credential (the variable is not set, or is set to the empty string)
  both operations of the adapter fail with the error that names the missing key, and they
  have sent no request.
\<close>

theorem missing_key_fails_before_fetch:
  "apiKey = None \<or> apiKey = Some [] \<Longrightarrow>
   generateMeetingPrep P apiKey prompt =
     (Inl (Error ''Missing OpenAI API key. Set VITE_OPENAI_API_KEY in your .env file.''), []) \<and>
   parseClientFromDocuments P apiKey now today docs =
     (Inl (Error ''Missing OpenAI API key. Set VITE_OPENAI_API_KEY in your .env file.''), [])"
  by (auto simp: generateMeetingPrep_def parseClientFromDocuments_def missing_key_def)

theorem missing_key_fails_before_fetch_witness:
  "((None :: string option) = None \<or> (None :: string option) = Some []) \<and>
   generateMeetingPrep offline None ''Prepare the meeting.'' =
     (Inl (Error ''Missing OpenAI API key. Set VITE_OPENAI_API_KEY in your .env file.''), []) \<and>
   parseClientFromDocuments (replying topic_text topic_payload) (Some []) 1700000000000
       ''2025-01-01'' [''Statement of account''] =
     (Inl (Error ''Missing OpenAI API key. Set VITE_OPENAI_API_KEY in your .env file.''), [])"
  using missing_key_fails_before_fetch [of None offline "''Prepare the meeting.''"]
    missing_key_fails_before_fetch [of "Some []" "replying topic_text topic_payload" _
      1700000000000 "''2025-01-01''" "[''Statement of account'']"]
  by simp

text \<open>With a credential each operation sends one request, whatever comes of it.\<close>

lemma one_request_with_key:
  "key \<noteq> [] \<Longrightarrow>
   snd (generateMeetingPrep P (Some key) prompt) =
     [\<lparr>req_url = OPENAI_API_URL, req_authorization = ''Bearer '' @ key,
       req_body = meeting_prep_body prompt\<rparr>] \<and>
   snd (parseClientFromDocuments P (Some key) now today docs) =
     [\<lparr>req_url = OPENAI_API_URL, req_authorization = ''Bearer '' @ key,
       req_body = ingest_body docs\<rparr>]"
  by (simp add: generateMeetingPrep_def parseClientFromDocuments_def Let_def)

text \<open>The two coercions, case by case.\<close>

lemma ensureString_cases:
  "ensureString P (JStr s) = s"
  "ensureString P JNull = []"
  "ensureString P Undefined = []"
  "ensureString P (JArr xs) = json_stringify P (JArr xs)"
  "ensureString P (JObj ps) = json_stringify P (JObj ps)"
  "ensureString P (JNum n) = to_String P (JNum n)"
  "ensureString P (JBool b) = to_String P (JBool b)"
  by (simp_all add: ensureString_def)

lemma ensureStringArray_cases:
  "falsy v \<Longrightarrow> ensureStringArray P v = []"
  "ensureStringArray P (JArr xs) = map (ensureString P) xs"
  "\<not> falsy v \<Longrightarrow> (\<And>xs. v \<noteq> JArr xs) \<Longrightarrow> ensureStringArray P v = [ensureString P v]"
  by (auto simp: ensureStringArray_def split: js.splits)

lemma generateMeetingPrep_parsed:
  assumes "key \<noteq> []"
    and "net_fetch P \<lparr>req_url = OPENAI_API_URL, req_authorization = ''Bearer '' @ key,
           req_body = meeting_prep_body prompt\<rparr> = Inr response"
    and "resp_ok response"
    and "resp_json response = Inr data"
    and "first_content data = Inr (JStr content)"
    and "content \<noteq> []"
    and "json_parse P (strip_fences (trim content)) = Some parsed"
  shows "fst (generateMeetingPrep P (Some key) prompt) =
     (case coerce_meeting_prep P parsed of
        Inl e \<Rightarrow> Inl (Error ''Failed to parse AI response. Please try again.'')
      | Inr prep \<Rightarrow> Inr prep)"
  using assms by (simp add: generateMeetingPrep_def parse_meeting_prep_def Let_def)

text \<open>
  C8, as the code has it. When the provider's answer is parsed and is not \<^verbatim>\<open>null\<close>,
  \<^verbatim>\<open>generateMeetingPrep\<close> returns a MeetingPrep. Each of its string fields is the field of
  the payload if that is a string, empty if it is \<^verbatim>\<open>null\<close> or absent, and its
  stringification otherwise. Each of its list fields is empty if the field of the payload
  is falsy (absent, \<^verbatim>\<open>null\<close>, \<^verbatim>\<open>false\<close>, 0, the empty string), the coerced elements if it
  is an array, and one element, its coercion, otherwise. So a \<^verbatim>\<open>keyTopicsToDiscuss\<close> that is
  a single string, not empty, gives the list of that one string.
\<close>

theorem generateMeetingPrep_coerces:
  assumes "key \<noteq> []"
    and "net_fetch P \<lparr>req_url = OPENAI_API_URL, req_authorization = ''Bearer '' @ key,
           req_body = meeting_prep_body prompt\<rparr> = Inr response"
    and "resp_ok response"
    and "resp_json response = Inr data"
    and "first_content data = Inr (JStr content)"
    and "content \<noteq> []"
    and "json_parse P (strip_fences (trim content)) = Some parsed"
    and "\<not> nullish parsed"
  shows "\<exists>prep. fst (generateMeetingPrep P (Some key) prompt) = Inr prep \<and>
     clientSnapshot prep = ensureString P (read parsed ''clientSnapshot'') \<and>
     recentContext prep = ensureString P (read parsed ''recentContext'') \<and>
     potentialConcerns prep = ensureString P (read parsed ''potentialConcerns'') \<and>
     relationshipNotes prep = ensureString P (read parsed ''relationshipNotes'') \<and>
     keyTopicsToDiscuss prep = ensureStringArray P (read parsed ''keyTopicsToDiscuss'') \<and>
     openActionItems prep = ensureStringArray P (read parsed ''openActionItems'') \<and>
     questionsToAsk prep = ensureStringArray P (read parsed ''questionsToAsk'') \<and>
     (\<forall>s. ensureString P (JStr s) = s) \<and>
     ensureString P JNull = [] \<and> ensureString P Undefined = [] \<and>
     (\<forall>v. \<not> nullish v \<and> (\<forall>s. v \<noteq> JStr s) \<longrightarrow>
        ensureString P v =
          (case v of JArr xs \<Rightarrow> json_stringify P v | JObj ps \<Rightarrow> json_stringify P v
           | _ \<Rightarrow> to_String P v)) \<and>
     (\<forall>v. falsy v \<longrightarrow> ensureStringArray P v = []) \<and>
     (\<forall>xs. ensureStringArray P (JArr xs) = map (ensureString P) xs) \<and>
     (\<forall>v. \<not> falsy v \<and> (\<forall>xs. v \<noteq> JArr xs) \<longrightarrow> ensureStringArray P v = [ensureString P v]) \<and>
     (\<forall>s. s \<noteq> [] \<and> read parsed ''keyTopicsToDiscuss'' = JStr s \<longrightarrow>
        keyTopicsToDiscuss prep = [s])"
proof -
  define prep where "prep =
     \<lparr>clientSnapshot = ensureString P (read parsed ''clientSnapshot''),
      recentContext = ensureString P (read parsed ''recentContext''),
      keyTopicsToDiscuss = ensureStringArray P (read parsed ''keyTopicsToDiscuss''),
      openActionItems = ensureStringArray P (read parsed ''openActionItems''),
      questionsToAsk = ensureStringArray P (read parsed ''questionsToAsk''),
      potentialConcerns = ensureString P (read parsed ''potentialConcerns''),
      relationshipNotes = ensureString P (read parsed ''relationshipNotes'')\<rparr>"
  have coerced: "coerce_meeting_prep P parsed = Inr prep"
    using assms(8) by (simp add: coerce_meeting_prep_def prep_def)
  have result: "fst (generateMeetingPrep P (Some key) prompt) = Inr prep"
    using generateMeetingPrep_parsed [OF assms(1-7)] coerced by simp
  have fields: "clientSnapshot prep = ensureString P (read parsed ''clientSnapshot'')"
    "recentContext prep = ensureString P (read parsed ''recentContext'')"
    "potentialConcerns prep = ensureString P (read parsed ''potentialConcerns'')"
    "relationshipNotes prep = ensureString P (read parsed ''relationshipNotes'')"
    "keyTopicsToDiscuss prep = ensureStringArray P (read parsed ''keyTopicsToDiscuss'')"
    "openActionItems prep = ensureStringArray P (read parsed ''openActionItems'')"
    "questionsToAsk prep = ensureStringArray P (read parsed ''questionsToAsk'')"
    by (simp_all add: prep_def)
  have other: "\<forall>v. \<not> nullish v \<and> (\<forall>s. v \<noteq> JStr s) \<longrightarrow>
        ensureString P v =
          (case v of JArr xs \<Rightarrow> json_stringify P v | JObj ps \<Rightarrow> json_stringify P v
           | _ \<Rightarrow> to_String P v)"
    by (auto simp: ensureString_def split: js.splits)
  have wrapped: "\<forall>v. \<not> falsy v \<and> (\<forall>xs. v \<noteq> JArr xs) \<longrightarrow>
      ensureStringArray P v = [ensureString P v]"
    by (auto simp: ensureStringArray_def split: js.splits)
  have topic: "\<forall>s. s \<noteq> [] \<and> read parsed ''keyTopicsToDiscuss'' = JStr s \<longrightarrow>
        keyTopicsToDiscuss prep = [s]"
    by (simp add: prep_def ensureStringArray_def ensureString_def)
  show ?thesis
    using result fields other wrapped topic
    by (intro exI [of _ prep]) (simp add: ensureString_cases ensureStringArray_cases(1,2))
qed

theorem generateMeetingPrep_coerces_witness:
  "''sk-test'' \<noteq> [] \<and>
   net_fetch (replying topic_text topic_payload)
     \<lparr>req_url = OPENAI_API_URL, req_authorization = ''Bearer '' @ ''sk-test'',
      req_body = meeting_prep_body ''Prepare the meeting.''\<rparr> = Inr (reply topic_text) \<and>
   resp_ok (reply topic_text) \<and>
   first_content
     (JObj [(''choices'', JArr
        [JObj [(''index'', JNum (Num 0)),
               (''message'', JObj [(''role'', JStr ''assistant''),
                                   (''content'', JStr topic_text)])]])])
     = Inr (JStr topic_text) \<and>
   topic_text \<noteq> [] \<and>
   json_parse (replying topic_text topic_payload) (strip_fences (trim topic_text))
     = Some topic_payload \<and>
   \<not> nullish topic_payload \<and>
   read topic_payload ''keyTopicsToDiscuss'' = JStr ''Retirement timeline'' \<and>
   (\<exists>prep. fst (generateMeetingPrep (replying topic_text topic_payload) (Some ''sk-test'')
                ''Prepare the meeting.'') = Inr prep \<and>
      keyTopicsToDiscuss prep = [''Retirement timeline''] \<and>
      clientSnapshot prep = ''Client since 2015.'' \<and>
      recentContext prep = [] \<and> openActionItems prep = [])"
proof -
  let ?P = "replying topic_text topic_payload"
  have fetch: "net_fetch ?P
     \<lparr>req_url = OPENAI_API_URL, req_authorization = ''Bearer '' @ ''sk-test'',
      req_body = meeting_prep_body ''Prepare the meeting.''\<rparr> = Inr (reply topic_text)"
    by (simp add: replying_def)
  have ok: "resp_ok (reply topic_text)"
    by (simp add: reply_def)
  have data: "resp_json (reply topic_text) =
     Inr (JObj [(''choices'', JArr
        [JObj [(''index'', JNum (Num 0)),
               (''message'', JObj [(''role'', JStr ''assistant''),
                                   (''content'', JStr topic_text)])]])])"
    by (simp add: reply_def)
  have content: "first_content
     (JObj [(''choices'', JArr
        [JObj [(''index'', JNum (Num 0)),
               (''message'', JObj [(''role'', JStr ''assistant''),
                                   (''content'', JStr topic_text)])]])])
     = Inr (JStr topic_text)"
    by (simp add: first_content_def optional_def read_def member_def)
  have nonempty: "topic_text \<noteq> []"
    by (simp add: topic_text_def)
  have plain: "strip_fences (trim topic_text) = topic_text"
    by (simp add: topic_text_def strip_fences_def trim_def is_space_def)
  have parsed: "json_parse ?P (strip_fences (trim topic_text)) = Some topic_payload"
    by (simp add: plain replying_def parse_known_def)
  have payload: "\<not> nullish topic_payload"
    "read topic_payload ''keyTopicsToDiscuss'' = JStr ''Retirement timeline''"
    "read topic_payload ''clientSnapshot'' = JStr ''Client since 2015.''"
    "read topic_payload ''recentContext'' = Undefined"
    "read topic_payload ''openActionItems'' = Undefined"
    by (simp_all add: topic_payload_def read_def member_def Object_prototype_def)
  have key: "''sk-test'' \<noteq> []" by simp
  from generateMeetingPrep_coerces [OF key fetch ok data content nonempty parsed payload(1)]
  obtain prep where prep:
    "fst (generateMeetingPrep ?P (Some ''sk-test'') ''Prepare the meeting.'') = Inr prep"
    "clientSnapshot prep = ensureString ?P (read topic_payload ''clientSnapshot'')"
    "recentContext prep = ensureString ?P (read topic_payload ''recentContext'')"
    "openActionItems prep = ensureStringArray ?P (read topic_payload ''openActionItems'')"
    "\<forall>s. s \<noteq> [] \<and> read topic_payload ''keyTopicsToDiscuss'' = JStr s \<longrightarrow>
        keyTopicsToDiscuss prep = [s]"
    by blast
  have "keyTopicsToDiscuss prep = [''Retirement timeline'']"
    using prep(5) payload(2) by simp
  moreover have "clientSnapshot prep = ''Client since 2015.''"
    "recentContext prep = []" "openActionItems prep = []"
    using prep(2-4) payload(3-5)
    by (simp_all add: ensureString_cases ensureStringArray_cases(1))
  ultimately show ?thesis
    using key fetch ok content nonempty parsed payload(1,2) prep(1) by blast
qed

text \<open>
  C8 as stated fails on a list field that is a falsy scalar: \<^verbatim>\<open>ensureStringArray\<close> begins
  with \<^verbatim>\<open>if (!value) return []\<close>. A payload whose \<^verbatim>\<open>keyTopicsToDiscuss\<close> is the single
  string \<^verbatim>\<open>""\<close> gives the empty list, not the list of that string; the same holds of
  \<^verbatim>\<open>0\<close> and \<^verbatim>\<open>false\<close>.
\<close>

theorem generateMeetingPrep_coerces_counterexample:
  "read no_topic_payload ''keyTopicsToDiscuss'' = JStr [] \<and>
   map_sum id keyTopicsToDiscuss
     (fst (generateMeetingPrep (replying no_topic_text no_topic_payload) (Some ''sk-test'')
             ''Prepare the meeting.'')) = Inr [] \<and>
   ensureStringArray offline (JNum (Num 0)) = [] \<and>
   ensureStringArray offline (JBool False) = []"
proof -
  have plain: "strip_fences (trim no_topic_text) = no_topic_text"
    by (simp add: no_topic_text_def strip_fences_def trim_def is_space_def)
  have "no_topic_text \<noteq> []"
    by (simp add: no_topic_text_def)
  then show ?thesis
    by (simp add: generateMeetingPrep_def parse_meeting_prep_def plain replying_def reply_def
        parse_known_def first_content_def optional_def read_def member_def
        coerce_meeting_prep_def no_topic_payload_def ensureStringArray_def Let_def)
qed

end
